theory Spec2Isabelle
  imports Complex_Main "HOL-Library.Multiset"
begin

section \<open>Deformable Shape Tracking: shapes and regressor stage\<close>

text \<open>
  The embedding follows \<^verbatim>\<open>src/core/shape.cpp\<close> and \<^verbatim>\<open>src/core/regressor.cpp\<close>.
  A \<^verbatim>\<open>Shape\<close>, \<^verbatim>\<open>ShapeResidual\<close> or \<^verbatim>\<open>PixelCoordinates\<close> value is an Eigen matrix with
  two rows and a dynamic number of columns; it is modelled as the list of its columns.

  A coefficient is a finite single-precision number, that is a real. Where the code
  compares a computed number or tests it against zero (the squared distances of the
  landmark scan, the mean, the covariance and the variance of the alignment), and where
  a claim speaks of a computed coefficient (the relative coordinates), each arithmetic
  result is rounded to single precision by a parameter \<open>fl\<close> of the model, and sums
  run from left to right. The other arithmetic (residuals, the rotation and the scale
  built from the decomposition, the sampled coordinates) is that of the reals: rounding
  changes the values there by an error, not the terms they are made of.
\<close>

subsection \<open>Vectors\<close>

type_synonym vec2 = "real \<times> real"
type_synonym Shape = "vec2 list"
type_synonym ShapeResidual = "vec2 list"
type_synonym PixelCoordinates = "vec2 list"
type_synonym PixelIntensities = "real list"

datatype error = DimensionMismatch | IndexOutOfRange | EmptyMatrix | LengthError

definition vadd :: "vec2 \<Rightarrow> vec2 \<Rightarrow> vec2" where
  "vadd a b = (fst a + fst b, snd a + snd b)"

definition vsub :: "vec2 \<Rightarrow> vec2 \<Rightarrow> vec2" where
  "vsub a b = (fst a - fst b, snd a - snd b)"

definition vscale :: "real \<Rightarrow> vec2 \<Rightarrow> vec2" where
  "vscale c a = (c * fst a, c * snd a)"

definition squaredNorm :: "vec2 \<Rightarrow> real" where
  "squaredNorm a = fst a * fst a + snd a * snd a"

subsection \<open>Rounding to single precision\<close>

text \<open>
  \<open>round32\<close> rounds a real to the nearest binary32 number, ties to the even
  significand, with the subnormal spacing below \<open>2\<^sup>-\<^sup>1\<^sup>2\<^sup>6\<close>. The exponent range is not
  bounded above: a result beyond the largest finite number, infinite in the code, is a
  real above \<^verbatim>\<open>FLT_MAX\<close> here, and only its comparisons are read.
\<close>

fun log2floor :: "nat \<Rightarrow> nat" where
  "log2floor n = (if n < 2 then 0 else Suc (log2floor (n div 2)))"

declare log2floor.simps [simp del]

definition pow2 :: "int \<Rightarrow> real" where
  "pow2 k = (if 0 \<le> k then 2 ^ nat k else 1 / 2 ^ nat (- k))"

text \<open>The exponent \<open>e\<close> of a real that is not zero: \<open>2\<^sup>e \<le> \<bar>x\<bar> < 2\<^sup>e\<^sup>+\<^sup>1\<close>.\<close>

definition exponent :: "real \<Rightarrow> int" where
  "exponent x =
     (let a = \<bar>x\<bar>
      in if 1 \<le> a then int (log2floor (nat \<lfloor>a\<rfloor>))
         else let m = int (log2floor (nat \<lfloor>1 / a\<rfloor>))
              in if 1 / a = pow2 m then - m else - (m + 1))"

definition roundEven :: "real \<Rightarrow> int" where
  "roundEven q =
     (let f = \<lfloor>q\<rfloor>; r = q - of_int f
      in if r < 1 / 2 then f else if 1 / 2 < r then f + 1 else if even f then f else f + 1)"

definition round32 :: "real \<Rightarrow> real" where
  "round32 x =
     (if x = 0 then 0
      else let u = pow2 (max (exponent x) (- 126) - 23)
           in u * of_int (roundEven (x / u)))"

text \<open>The difference of two columns and a sum from left to right, in single precision.\<close>

definition vsubF :: "(real \<Rightarrow> real) \<Rightarrow> vec2 \<Rightarrow> vec2 \<Rightarrow> vec2" where
  "vsubF fl a b = (fl (fst a - fst b), fl (snd a - snd b))"

definition sumF :: "(real \<Rightarrow> real) \<Rightarrow> real list \<Rightarrow> real" where
  "sumF fl xs = (case xs of [] \<Rightarrow> 0 | y # ys \<Rightarrow> foldl (\<lambda>a b. fl (a + b)) y ys)"

subsection \<open>findClosestLandmarkIndex\<close>

definition FLT_MAX :: real where
  "FLT_MAX = (2 - 1 / 2 ^ 23) * 2 ^ 127"

text \<open>
  \<^verbatim>\<open>(s.col(i) - x).squaredNorm()\<close> as the code computes it: two differences, two
  squares and their sum, each rounded.
\<close>

definition squaredDistance :: "(real \<Rightarrow> real) \<Rightarrow> vec2 \<Rightarrow> vec2 \<Rightarrow> real" where
  "squaredDistance fl p x =
     (let d = vsubF fl p x in fl (fl (fst d * fst d) + fl (snd d * snd d)))"

text \<open>
  The scan of \<^verbatim>\<open>findClosestLandmarkIndex\<close>: the remaining columns, the query point, the
  loop counter \<^verbatim>\<open>i\<close> and the pair \<^verbatim>\<open>(bestLandmark, bestD2)\<close>.
\<close>

fun closestScan :: "(real \<Rightarrow> real) \<Rightarrow> Shape \<Rightarrow> vec2 \<Rightarrow> int \<Rightarrow> int \<times> real \<Rightarrow> int \<times> real" where
  "closestScan fl [] x i best = best"
| "closestScan fl (p # ps) x i best =
     (let d2 = squaredDistance fl p x
      in if d2 < snd best then closestScan fl ps x (i + 1) (i, d2)
         else closestScan fl ps x (i + 1) best)"

definition findClosestLandmarkIndex :: "(real \<Rightarrow> real) \<Rightarrow> Shape \<Rightarrow> vec2 \<Rightarrow> int" where
  "findClosestLandmarkIndex fl s x = fst (closestScan fl s x 0 (-1, FLT_MAX))"

text \<open>The squared distance from the query to landmark \<open>i\<close>, as the code computes it.\<close>

definition landmarkD2 :: "(real \<Rightarrow> real) \<Rightarrow> Shape \<Rightarrow> vec2 \<Rightarrow> nat \<Rightarrow> real" where
  "landmarkD2 fl s x i = squaredDistance fl (s ! i) x"

subsection \<open>shapeRelativePixelCoordinates\<close>

text \<open>
  The column read \<^verbatim>\<open>s.col(idx)\<close>; an index outside \<open>[0, L)\<close> is outside the matrix.
\<close>

definition col :: "Shape \<Rightarrow> int \<Rightarrow> error + vec2" where
  "col s idx = (if 0 \<le> idx \<and> idx < int (length s) then Inr (s ! nat idx) else Inl IndexOutOfRange)"

fun relativeLoop ::
  "(real \<Rightarrow> real) \<Rightarrow> Shape \<Rightarrow> PixelCoordinates \<Rightarrow> error + (PixelCoordinates \<times> int list)" where
  "relativeLoop fl s [] = Inr ([], [])"
| "relativeLoop fl s (a # as) =
     (let idx = findClosestLandmarkIndex fl s a
      in case col s idx of
           Inl e \<Rightarrow> Inl e
         | Inr p \<Rightarrow>
             (case relativeLoop fl s as of
                Inl e \<Rightarrow> Inl e
              | Inr (rel, cl) \<Rightarrow> Inr (vsubF fl a p # rel, idx # cl)))"

definition shapeRelativePixelCoordinates ::
  "(real \<Rightarrow> real) \<Rightarrow> Shape \<Rightarrow> PixelCoordinates \<Rightarrow> error + (PixelCoordinates \<times> int list)" where
  "shapeRelativePixelCoordinates fl s abscoords = relativeLoop fl s abscoords"

subsection \<open>estimateSimilarityTransform\<close>

text \<open>
  A 2 by 2 matrix is the tuple of its coefficients, row by row. The product, the
  transpose, the determinant and the trace are Eigen's.
\<close>

type_synonym mat2 = "real \<times> real \<times> real \<times> real"

definition mat2Identity :: mat2 where
  "mat2Identity = (1, 0, 0, 1)"

fun mmul :: "mat2 \<Rightarrow> mat2 \<Rightarrow> mat2" where
  "mmul (a, b, c, d) (e, f, g, h) = (a * e + b * g, a * f + b * h, c * e + d * g, c * f + d * h)"

fun mtranspose :: "mat2 \<Rightarrow> mat2" where
  "mtranspose (a, b, c, d) = (a, c, b, d)"

fun mdet :: "mat2 \<Rightarrow> real" where
  "mdet (a, b, c, d) = a * d - b * c"

fun mtrace :: "mat2 \<Rightarrow> real" where
  "mtrace (a, b, c, d) = a + d"

fun mscalar :: "real \<Rightarrow> mat2 \<Rightarrow> mat2" where
  "mscalar k (a, b, c, d) = (k * a, k * b, k * c, k * d)"

fun mapply :: "mat2 \<Rightarrow> vec2 \<Rightarrow> vec2" where
  "mapply (a, b, c, d) (x, y) = (a * x + b * y, c * x + d * y)"

record AffineCompact2f =
  linear :: mat2
  translation :: vec2

text \<open>
  \<^verbatim>\<open>rowwise().mean()\<close> of a shape with at least one column: the sum of each row,
  divided by the number of columns.
\<close>

definition rowwiseMean :: "(real \<Rightarrow> real) \<Rightarrow> Shape \<Rightarrow> vec2" where
  "rowwiseMean fl s =
     (fl (sumF fl (map fst s) / real (length s)), fl (sumF fl (map snd s) / real (length s)))"

definition centered :: "(real \<Rightarrow> real) \<Rightarrow> Shape \<Rightarrow> Shape" where
  "centered fl s = map (\<lambda>p. vsubF fl p (rowwiseMean fl s)) s"

text \<open>
  \<^verbatim>\<open>cov = centeredFrom * centeredTo.transpose(); cov /= from.cols()\<close>, for two
  shapes with the same number of columns.
\<close>

definition covariance :: "(real \<Rightarrow> real) \<Rightarrow> Shape \<Rightarrow> Shape \<Rightarrow> mat2" where
  "covariance fl from to =
     (let cf = centered fl from; ct = centered fl to; n = real (length from)
      in (fl (sumF fl (map2 (\<lambda>p q. fl (fst p * fst q)) cf ct) / n),
          fl (sumF fl (map2 (\<lambda>p q. fl (fst p * snd q)) cf ct) / n),
          fl (sumF fl (map2 (\<lambda>p q. fl (snd p * fst q)) cf ct) / n),
          fl (sumF fl (map2 (\<lambda>p q. fl (snd p * snd q)) cf ct) / n)))"

text \<open>
  \<^verbatim>\<open>sFrom = centeredFrom.squaredNorm() / from.cols()\<close>: the squares of the coefficients,
  column by column.
\<close>

definition sourceVariance :: "(real \<Rightarrow> real) \<Rightarrow> Shape \<Rightarrow> real" where
  "sourceVariance fl from =
     fl (sumF fl (concat (map (\<lambda>p. [fl (fst p * fst p), fl (snd p * snd p)]) (centered fl from)))
           / real (length from))"

text \<open>
  The singular value decomposition is Eigen's \<^verbatim>\<open>JacobiSVD\<close>, a library routine outside
  the repository: it is a parameter \<open>jacobiSvd\<close> of the model, returning \<^verbatim>\<open>matrixU()\<close>,
  the two \<^verbatim>\<open>singularValues()\<close> and \<^verbatim>\<open>matrixV()\<close>.
\<close>

type_synonym svdResult = "mat2 \<times> vec2 \<times> mat2"

text \<open>
  The matrix \<^verbatim>\<open>s\<close> of lines 44 to 54: the reflection correction. The determinants
  of lines 45 and 46 are those of the matrices as stored.
\<close>

definition correction :: "mat2 \<Rightarrow> svdResult \<Rightarrow> mat2" where
  "correction cov r =
     (case r of (u, sv, v) \<Rightarrow>
        let detCov = mdet cov; detUV = mdet u * mdet v
        in if detCov < 0 \<or> (detCov = 0 \<and> detUV < 0)
           then (if snd sv < fst sv then (1, 0, 0, -1) else (-1, 0, 0, 1))
           else mat2Identity)"

text \<open>\<^verbatim>\<open>rot = svd.matrixU().transpose() * s * svd.matrixV()\<close>.\<close>

definition rotationPart :: "mat2 \<Rightarrow> svdResult \<Rightarrow> mat2" where
  "rotationPart cov r =
     (case r of (u, sv, v) \<Rightarrow> mmul (mmul (mtranspose u) (correction cov r)) v)"

text \<open>
  The scale \<^verbatim>\<open>c\<close> of lines 57 to 60; \<^verbatim>\<open>d\<close> is the diagonal matrix of the singular
  values. The division by \<^verbatim>\<open>sFrom\<close> stands under the guard \<^verbatim>\<open>sFrom > 0\<close>.
\<close>

definition scaleFactor :: "real \<Rightarrow> mat2 \<Rightarrow> svdResult \<Rightarrow> real" where
  "scaleFactor sFrom cov r =
     (case r of (u, sv, v) \<Rightarrow>
        let d = (fst sv, 0, 0, snd sv)
        in if sFrom > 0 then 1 / sFrom * mtrace (mmul d (correction cov r)) else 1)"

definition estimateSimilarityTransform ::
  "(real \<Rightarrow> real) \<Rightarrow> (mat2 \<Rightarrow> svdResult) \<Rightarrow> Shape \<Rightarrow> Shape \<Rightarrow> error + AffineCompact2f" where
  "estimateSimilarityTransform fl jacobiSvd from to =
     (if from = [] \<or> to = [] then Inl EmptyMatrix
      else if length from \<noteq> length to then Inl DimensionMismatch
      else
        let meanFrom = rowwiseMean fl from;
            meanTo = rowwiseMean fl to;
            cov = covariance fl from to;
            sFrom = sourceVariance fl from;
            svd = jacobiSvd cov;
            rot = rotationPart cov svd;
            c = scaleFactor sFrom cov svd;
            t = vsub meanTo (mapply (mscalar c rot) meanFrom)
        in Inr \<lparr>linear = mscalar c rot, translation = t\<rparr>)"

subsection \<open>Matrices with two rows and a dynamic number of columns\<close>

text \<open>
  Eigen's coefficient-wise operations require operands of the same size; a mismatch is
  a failed assertion of the library.
\<close>

definition bindE :: "error + 'a \<Rightarrow> ('a \<Rightarrow> error + 'b) \<Rightarrow> error + 'b" where
  "bindE m f = (case m of Inl e \<Rightarrow> Inl e | Inr x \<Rightarrow> f x)"

fun mapE :: "('a \<Rightarrow> error + 'b) \<Rightarrow> 'a list \<Rightarrow> error + 'b list" where
  "mapE f [] = Inr []"
| "mapE f (x # xs) = bindE (f x) (\<lambda>y. bindE (mapE f xs) (\<lambda>ys. Inr (y # ys)))"

definition matZero :: "int \<Rightarrow> error + ShapeResidual" where
  "matZero n = (if n < 0 then Inl LengthError else Inr (replicate (nat n) (0, 0)))"

definition matSub :: "Shape \<Rightarrow> Shape \<Rightarrow> error + Shape" where
  "matSub a b = (if length a = length b then Inr (map2 vsub a b) else Inl DimensionMismatch)"

definition matAdd :: "Shape \<Rightarrow> Shape \<Rightarrow> error + Shape" where
  "matAdd a b = (if length a = length b then Inr (map2 vadd a b) else Inl DimensionMismatch)"

definition matScale :: "real \<Rightarrow> Shape \<Rightarrow> Shape" where
  "matScale c a = map (vscale c) a"

text \<open>
  \<^verbatim>\<open>m /= c\<close>. For \<open>c = 0\<close> the coefficients of the single-precision quotient are
  NaN or infinite, which no real is: they are the unspecified \<open>notANumber\<close>, of which
  nothing can be proved.
\<close>

definition notANumber :: real where
  "notANumber = undefined"

definition matDiv :: "Shape \<Rightarrow> real \<Rightarrow> Shape" where
  "matDiv a c =
     (if c = 0 then map (\<lambda>p. (notANumber, notANumber)) a
      else map (\<lambda>p. (fst p / c, snd p / c)) a)"

text \<open>\<^verbatim>\<open>std::vector::resize\<close> with a default-constructed filler.\<close>

definition resize :: "nat \<Rightarrow> 'a \<Rightarrow> 'a list \<Rightarrow> 'a list" where
  "resize n dflt xs = take n xs @ replicate (n - length xs) dflt"

subsection \<open>Training structures\<close>

text \<open>
  The structures are declared in headers outside \<^verbatim>\<open>src/\<close>; the fields are those the
  two source files and the training driver read and write. The random engine
  \<^verbatim>\<open>trainingData->rnd\<close> has the abstract state \<open>'g\<close>; an image has the abstract type
  \<open>'img\<close>; a \<^verbatim>\<open>Tree\<close> has the abstract type \<open>'tree\<close>.
\<close>

record TrainingParameters =
  numCascades :: int
  numTrees :: int
  maxTreeDepth :: int
  numRandomPixelCoordinates :: int
  numRandomSplitTestsPerNode :: int
  exponentialLambda :: real
  learningRate :: real

record ('g, 'img) TrainingData =
  shapes :: "Shape list"
  images :: "'img list"
  params :: TrainingParameters
  rnd :: 'g

record RSample =
  idx :: nat
  estimate :: Shape

record ('g, 'img) RegressorTraining =
  trainingData :: "('g, 'img) TrainingData"
  samples :: "RSample list"
  meanShape :: Shape
  numLandmarks :: int

record TSample =
  residual :: ShapeResidual
  intensities :: PixelIntensities

record ('g, 'img) TreeTraining =
  numLandmarks :: int
  trainingData :: "('g, 'img) TrainingData"
  samples :: "TSample list"
  pixelCoordinates :: PixelCoordinates

text \<open>
  \<^verbatim>\<open>Regressor::data\<close>. The field \<^verbatim>\<open>shapeRelativePixelCoordinates\<close> is named
  \<open>shapeRelativePixelCoords\<close> here, the full name being the function's.
\<close>

record 'tree RegressorData =
  shapeRelativePixelCoords :: PixelCoordinates
  closestShapeLandmark :: "int list"
  meanResidual :: ShapeResidual
  meanShape :: Shape
  trees :: "'tree list"
  learningRate :: real

subsection \<open>Regressor::sampleCoordinates\<close>

text \<open>
  \<^verbatim>\<open>std::uniform_real_distribution<float> d(a, b)\<close> applied to the engine: the engine
  yields a number \<open>u\<close> of \<open>[0, 1)\<close> and its next state (the parameter \<open>canonical\<close>),
  and the distribution returns \<open>u * (b - a) + a\<close>.
\<close>

definition uniformReal :: "('g \<Rightarrow> real \<times> 'g) \<Rightarrow> real \<Rightarrow> real \<Rightarrow> 'g \<Rightarrow> real \<times> 'g" where
  "uniformReal canonical a b g = (case canonical g of (u, g') \<Rightarrow> (u * (b - a) + a, g'))"

fun minCoeff :: "real list \<Rightarrow> real" where
  "minCoeff [] = 0"
| "minCoeff [x] = x"
| "minCoeff (x # y # ys) = min x (minCoeff (y # ys))"

fun maxCoeff :: "real list \<Rightarrow> real" where
  "maxCoeff [] = 0"
| "maxCoeff [x] = x"
| "maxCoeff (x # y # ys) = max x (maxCoeff (y # ys))"

fun sampleLoop ::
  "('g \<Rightarrow> real \<times> 'g) \<Rightarrow> vec2 \<Rightarrow> vec2 \<Rightarrow> nat \<Rightarrow> 'g \<Rightarrow> PixelCoordinates \<times> 'g" where
  "sampleLoop canonical minC maxC 0 g = ([], g)"
| "sampleLoop canonical minC maxC (Suc n) g =
     (case uniformReal canonical 0 (fst maxC - fst minC) g of (dx, g1) \<Rightarrow>
      case uniformReal canonical 0 (snd maxC - snd minC) g1 of (dy, g2) \<Rightarrow>
      case sampleLoop canonical minC maxC n g2 of (rest, g3) \<Rightarrow>
        ((fst minC + dx, snd maxC + dy) # rest, g3))"

definition sampleCoordinates ::
  "('g \<Rightarrow> real \<times> 'g) \<Rightarrow> ('g, 'img) RegressorTraining \<Rightarrow> error + (PixelCoordinates \<times> 'g)" where
  "sampleCoordinates canonical t =
     (let ms = RegressorTraining.meanShape t;
          td = RegressorTraining.trainingData t;
          numCoords = numRandomPixelCoordinates (params td)
      in if ms = [] then Inl EmptyMatrix
         else if numCoords < 0 then Inl LengthError
         else
           let minC = (minCoeff (map fst ms), minCoeff (map snd ms));
               maxC = (maxCoeff (map fst ms), maxCoeff (map snd ms))
           in Inr (sampleLoop canonical minC maxC (nat numCoords) (rnd td)))"

subsection \<open>Regressor::readPixelIntensities and Regressor::predict\<close>

text \<open>
  The loop \<^verbatim>\<open>coords.col(i) += s.col(data.closestShapeLandmark(i))\<close> over the columns of
  the transformed coordinates; the second list is the vector of anchor indices.
\<close>

fun addAnchors :: "Shape \<Rightarrow> PixelCoordinates \<Rightarrow> int list \<Rightarrow> error + PixelCoordinates" where
  "addAnchors s [] cl = Inr []"
| "addAnchors s (c # cs) [] = Inl IndexOutOfRange"
| "addAnchors s (c # cs) (l # ls) =
     bindE (col s l) (\<lambda>p. bindE (addAnchors s cs ls) (\<lambda>r. Inr (vadd c p # r)))"

text \<open>\<^verbatim>\<open>readImage\<close> is the image collaborator, a parameter of the model.\<close>

definition readPixelIntensities ::
  "('img \<Rightarrow> PixelCoordinates \<Rightarrow> PixelIntensities) \<Rightarrow> 'tree RegressorData \<Rightarrow>
   AffineCompact2f \<Rightarrow> Shape \<Rightarrow> 'img \<Rightarrow> error + PixelIntensities" where
  "readPixelIntensities readImage d t s img =
     bindE (addAnchors s (map (mapply (linear t)) (shapeRelativePixelCoords d)) (closestShapeLandmark d))
       (\<lambda>coords. Inr (readImage img coords))"

text \<open>
  The loop of \<^verbatim>\<open>predict\<close>: \<^verbatim>\<open>sr += data.trees[i].predict(intensities) * data.learningRate\<close>.
  \<^verbatim>\<open>Tree::predict\<close> is outside \<^verbatim>\<open>src/\<close>, a parameter \<open>treePredict\<close> of the model.
\<close>

fun accumulate ::
  "('tree \<Rightarrow> PixelIntensities \<Rightarrow> ShapeResidual) \<Rightarrow> real \<Rightarrow> PixelIntensities \<Rightarrow>
   'tree list \<Rightarrow> ShapeResidual \<Rightarrow> error + ShapeResidual" where
  "accumulate treePredict lr ints [] sr = Inr sr"
| "accumulate treePredict lr ints (t # ts) sr =
     bindE (matAdd sr (matScale lr (treePredict t ints))) (accumulate treePredict lr ints ts)"

definition predict ::
  "(real \<Rightarrow> real) \<Rightarrow> (mat2 \<Rightarrow> svdResult) \<Rightarrow> ('img \<Rightarrow> PixelCoordinates \<Rightarrow> PixelIntensities) \<Rightarrow>
   ('tree \<Rightarrow> PixelIntensities \<Rightarrow> ShapeResidual) \<Rightarrow> 'tree RegressorData \<Rightarrow> 'img \<Rightarrow> Shape \<Rightarrow>
   error + ShapeResidual" where
  "predict fl jacobiSvd readImage treePredict d img shape =
     bindE (estimateSimilarityTransform fl jacobiSvd (meanShape d) shape) (\<lambda>trans.
     bindE (readPixelIntensities readImage d trans shape img) (\<lambda>ints.
       accumulate treePredict (learningRate d) ints (trees d) (meanResidual d)))"

subsection \<open>Regressor::fit\<close>

text \<open>
  The first loop of \<^verbatim>\<open>fit\<close> (lines 123 to 131) over the samples: the accumulated
  \<^verbatim>\<open>data.meanResidual\<close> and the tree samples built so far.
\<close>

fun targetLoop ::
  "(real \<Rightarrow> real) \<Rightarrow> (mat2 \<Rightarrow> svdResult) \<Rightarrow> ('img \<Rightarrow> PixelCoordinates \<Rightarrow> PixelIntensities) \<Rightarrow>
   'tree RegressorData \<Rightarrow> ('g, 'img) RegressorTraining \<Rightarrow> RSample list \<Rightarrow> ShapeResidual \<Rightarrow>
   error + (ShapeResidual \<times> TSample list)" where
  "targetLoop fl jacobiSvd readImage d t [] mr = Inr (mr, [])"
| "targetLoop fl jacobiSvd readImage d t (s # ss) mr =
     (let td = RegressorTraining.trainingData t
      in if idx s \<ge> length (shapes td) \<or> idx s \<ge> length (images td) then Inl IndexOutOfRange
         else
           bindE (matSub (shapes td ! idx s) (estimate s)) (\<lambda>res.
           bindE (matAdd mr res) (\<lambda>mr'.
           bindE (estimateSimilarityTransform fl jacobiSvd (RegressorTraining.meanShape t) (estimate s)) (\<lambda>trans.
           bindE (readPixelIntensities readImage d trans (estimate s) (images td ! idx s)) (\<lambda>ints.
           bindE (targetLoop fl jacobiSvd readImage d t ss mr') (\<lambda>(mrF, rest).
             Inr (mrF, \<lparr>residual = res, intensities = ints\<rparr> # rest)))))))"

text \<open>
  The inner loop of the boosting loop (lines 136 to 143), for one sample and for all.
\<close>

definition updateResidual ::
  "('tree \<Rightarrow> PixelIntensities \<Rightarrow> ShapeResidual) \<Rightarrow> 'tree RegressorData \<Rightarrow> nat \<Rightarrow> TSample \<Rightarrow>
   error + TSample" where
  "updateResidual treePredict d k s =
     bindE (if k = 0 then matSub (residual s) (meanResidual d)
            else matSub (residual s)
                   (matScale (learningRate d) (treePredict (trees d ! (k - 1)) (intensities s))))
       (\<lambda>r. Inr (s\<lparr>residual := r\<rparr>))"

definition subtractStep ::
  "('tree \<Rightarrow> PixelIntensities \<Rightarrow> ShapeResidual) \<Rightarrow> 'tree RegressorData \<Rightarrow> nat \<Rightarrow> TSample list \<Rightarrow>
   error + TSample list" where
  "subtractStep treePredict d k ss = mapE (updateResidual treePredict d k) ss"

text \<open>
  The boosting loop (lines 134 to 145) over the tree indices. \<^verbatim>\<open>Tree::fit\<close> is outside
  \<^verbatim>\<open>src/\<close>, a parameter \<open>treeFit\<close> of the model: from the tree object and the tree
  training structure it yields the fitted tree, the samples as it leaves them and the
  next state of the random engine.
\<close>

fun boostLoop ::
  "('tree \<Rightarrow> PixelIntensities \<Rightarrow> ShapeResidual) \<Rightarrow>
   ('tree \<Rightarrow> ('g, 'img) TreeTraining \<Rightarrow> 'tree \<times> TSample list \<times> 'g) \<Rightarrow> nat list \<Rightarrow>
   'tree RegressorData \<times> ('g, 'img) TreeTraining \<Rightarrow>
   error + ('tree RegressorData \<times> ('g, 'img) TreeTraining)" where
  "boostLoop treePredict treeFit [] st = Inr st"
| "boostLoop treePredict treeFit (k # ks) (d, tt) =
     bindE (subtractStep treePredict d k (samples tt)) (\<lambda>ss.
       case treeFit (trees d ! k) (tt\<lparr>samples := ss\<rparr>) of
         (tree, ss', g') \<Rightarrow>
           boostLoop treePredict treeFit ks
             (d\<lparr>trees := (trees d)[k := tree]\<rparr>,
              tt\<lparr>samples := ss', trainingData := (trainingData tt)\<lparr>rnd := g'\<rparr>\<rparr>))"

text \<open>
  \<^verbatim>\<open>Regressor::fit\<close> up to the boosting loop (lines 105 to 132): the regressor with its
  mean residual and the tree training structure the loop starts from. \<open>emptyTree\<close> is
  the default-constructed \<^verbatim>\<open>Tree\<close>.
\<close>

definition fitStart ::
  "(real \<Rightarrow> real) \<Rightarrow> ('g \<Rightarrow> real \<times> 'g) \<Rightarrow> (mat2 \<Rightarrow> svdResult) \<Rightarrow>
   ('img \<Rightarrow> PixelCoordinates \<Rightarrow> PixelIntensities) \<Rightarrow> 'tree \<Rightarrow>
   'tree RegressorData \<Rightarrow> ('g, 'img) RegressorTraining \<Rightarrow>
   error + ('tree RegressorData \<times> ('g, 'img) TreeTraining)" where
  "fitStart fl canonical jacobiSvd readImage emptyTree d t =
     (let td = RegressorTraining.trainingData t; p = params td
      in if numTrees p < 0 then Inl LengthError
         else
           let d1 = d\<lparr>learningRate := TrainingParameters.learningRate p,
                      trees := resize (nat (numTrees p)) emptyTree (trees d),
                      meanShape := RegressorTraining.meanShape t\<rparr>
           in bindE (sampleCoordinates canonical t) (\<lambda>(coords, g1).
              bindE (shapeRelativePixelCoordinates fl (RegressorTraining.meanShape t) coords) (\<lambda>(rel, cl).
              let d2 = d1\<lparr>shapeRelativePixelCoords := rel, closestShapeLandmark := cl\<rparr>
              in bindE (matZero (RegressorTraining.numLandmarks t)) (\<lambda>zero.
                 bindE (targetLoop fl jacobiSvd readImage d2 t (RegressorTraining.samples t) zero) (\<lambda>(total, tsamples).
                 let d3 = d2\<lparr>meanResidual := matDiv total (real (length (RegressorTraining.samples t)))\<rparr>;
                     tt = \<lparr>numLandmarks = RegressorTraining.numLandmarks t,
                           trainingData = td\<lparr>rnd := g1\<rparr>,
                           samples = tsamples,
                           pixelCoordinates = coords\<rparr>
                 in Inr (d3, tt))))))"

text \<open>
  \<^verbatim>\<open>Regressor::fit\<close>: the state above, the boosting loop over the tree indices, and the
  returned boolean. The result is the new \<^verbatim>\<open>Regressor::data\<close>, the state of the random
  engine and that boolean.
\<close>

definition fit ::
  "(real \<Rightarrow> real) \<Rightarrow> ('g \<Rightarrow> real \<times> 'g) \<Rightarrow> (mat2 \<Rightarrow> svdResult) \<Rightarrow>
   ('img \<Rightarrow> PixelCoordinates \<Rightarrow> PixelIntensities) \<Rightarrow>
   ('tree \<Rightarrow> PixelIntensities \<Rightarrow> ShapeResidual) \<Rightarrow>
   ('tree \<Rightarrow> ('g, 'img) TreeTraining \<Rightarrow> 'tree \<times> TSample list \<times> 'g) \<Rightarrow> 'tree \<Rightarrow>
   'tree RegressorData \<Rightarrow> ('g, 'img) RegressorTraining \<Rightarrow>
   error + ('tree RegressorData \<times> 'g \<times> bool)" where
  "fit fl canonical jacobiSvd readImage treePredict treeFit emptyTree d t =
     bindE (fitStart fl canonical jacobiSvd readImage emptyTree d t) (\<lambda>(d3, tt).
     bindE (boostLoop treePredict treeFit
              [0..<nat (numTrees (params (RegressorTraining.trainingData t)))] (d3, tt)) (\<lambda>(d4, tt4).
       Inr (d4, rnd (trainingData tt4), False)))"

subsection \<open>Sums of residuals\<close>

text \<open>
  The coefficient-wise sum of two residuals and of a list of residuals with \<open>n\<close>
  columns, in which the results of \<^verbatim>\<open>predict\<close> and of the boosting loop are stated.
\<close>

definition residualAdd :: "ShapeResidual \<Rightarrow> ShapeResidual \<Rightarrow> ShapeResidual" where
  "residualAdd a b = map2 vadd a b"

definition residualSub :: "ShapeResidual \<Rightarrow> ShapeResidual \<Rightarrow> ShapeResidual" where
  "residualSub a b = map2 vsub a b"

definition residualSum :: "nat \<Rightarrow> ShapeResidual list \<Rightarrow> ShapeResidual" where
  "residualSum n rs = foldr residualAdd rs (replicate n (0, 0))"

subsection \<open>A small training run\<close>

text \<open>
  Concrete collaborators and inputs on which the definitions are evaluated: an engine
  that always yields one half, a decomposition that returns identity factors, an image
  reader that returns the abscissas, and a tree that is a constant residual, fitted to
  the residual of the first sample it is given and leaving the samples in reverse order.
\<close>

definition exampleCanonical :: "nat \<Rightarrow> real \<times> nat" where
  "exampleCanonical g = (1 / 2, Suc g)"

definition exampleSvd :: "mat2 \<Rightarrow> svdResult" where
  "exampleSvd cov = (mat2Identity, (1, 1), mat2Identity)"

definition exampleReadImage :: "unit \<Rightarrow> PixelCoordinates \<Rightarrow> PixelIntensities" where
  "exampleReadImage img coords = map fst coords"

definition exampleTreePredict :: "ShapeResidual \<Rightarrow> PixelIntensities \<Rightarrow> ShapeResidual" where
  "exampleTreePredict tree ints = tree"

definition exampleTreeFit ::
  "ShapeResidual \<Rightarrow> (nat, unit) TreeTraining \<Rightarrow> ShapeResidual \<times> TSample list \<times> nat" where
  "exampleTreeFit tree tt =
     ((case samples tt of [] \<Rightarrow> tree | s # ss \<Rightarrow> residual s),
      rev (samples tt), Suc (rnd (trainingData tt)))"

definition exampleParams :: TrainingParameters where
  "exampleParams =
     \<lparr>numCascades = 1, numTrees = 2, maxTreeDepth = 1, numRandomPixelCoordinates = 1,
      numRandomSplitTestsPerNode = 1, exponentialLambda = 1,
      TrainingParameters.learningRate = 1 / 2\<rparr>"

definition exampleTrainingData :: "(nat, unit) TrainingData" where
  "exampleTrainingData =
     \<lparr>shapes = [[(0, 0), (2, 2)]], images = [()], params = exampleParams, rnd = 0\<rparr>"

definition exampleTraining :: "(nat, unit) RegressorTraining" where
  "exampleTraining =
     \<lparr>RegressorTraining.trainingData = exampleTrainingData,
      RegressorTraining.samples =
        [\<lparr>idx = 0, estimate = [(0, 0), (1, 1)]\<rparr>, \<lparr>idx = 0, estimate = [(1, 1), (2, 2)]\<rparr>],
      RegressorTraining.meanShape = [(0, 0), (1, 1)],
      RegressorTraining.numLandmarks = 2\<rparr>"

definition exampleEmptyTraining :: "(nat, unit) RegressorTraining" where
  "exampleEmptyTraining = exampleTraining\<lparr>RegressorTraining.samples := []\<rparr>"

definition exampleRegressor :: "ShapeResidual RegressorData" where
  "exampleRegressor =
     \<lparr>shapeRelativePixelCoords = [], closestShapeLandmark = [], meanResidual = [],
      meanShape = [], trees = [], learningRate = 0\<rparr>"

text \<open>The regressor that the training run above produces.\<close>

definition exampleTrained :: "ShapeResidual RegressorData" where
  "exampleTrained =
     \<lparr>shapeRelativePixelCoords = [(- (1 / 2), 1 / 2)],
      closestShapeLandmark = [1],
      meanResidual = [(- (1 / 2), - (1 / 2)), (1 / 2, 1 / 2)],
      meanShape = [(0, 0), (1, 1)],
      trees = [[(1 / 2, 1 / 2), (1 / 2, 1 / 2)], [(- (3 / 4), - (3 / 4)), (- (3 / 4), - (3 / 4))]],
      learningRate = 1 / 2\<rparr>"

text \<open>
  The states of that run around the boosting loop: the regressor and the tree training
  structure when the loop starts, after the first tree is fitted, and the samples the
  second tree is fitted to.
\<close>

definition exampleStage :: "ShapeResidual RegressorData" where
  "exampleStage = exampleTrained\<lparr>trees := [[], []]\<rparr>"

definition exampleTreeTraining :: "(nat, unit) TreeTraining" where
  "exampleTreeTraining =
     \<lparr>numLandmarks = 2,
      trainingData = exampleTrainingData\<lparr>rnd := 2\<rparr>,
      samples = [\<lparr>residual = [(0, 0), (1, 1)], intensities = [- 1]\<rparr>,
                 \<lparr>residual = [(- 1, - 1), (0, 0)], intensities = [0]\<rparr>],
      pixelCoordinates = [(1 / 2, 3 / 2)]\<rparr>"

definition exampleStage1 :: "ShapeResidual RegressorData" where
  "exampleStage1 = exampleTrained\<lparr>trees := [[(1 / 2, 1 / 2), (1 / 2, 1 / 2)], []]\<rparr>"

definition exampleTreeTraining1 :: "(nat, unit) TreeTraining" where
  "exampleTreeTraining1 =
     exampleTreeTraining
       \<lparr>samples := [\<lparr>residual = [(- (1 / 2), - (1 / 2)), (- (1 / 2), - (1 / 2))], intensities = [0]\<rparr>,
                    \<lparr>residual = [(1 / 2, 1 / 2), (1 / 2, 1 / 2)], intensities = [- 1]\<rparr>],
        trainingData := exampleTrainingData\<lparr>rnd := 3\<rparr>\<rparr>"

definition exampleSamples1 :: "TSample list" where
  "exampleSamples1 =
     [\<lparr>residual = [(- (3 / 4), - (3 / 4)), (- (3 / 4), - (3 / 4))], intensities = [0]\<rparr>,
      \<lparr>residual = [(1 / 4, 1 / 4), (1 / 4, 1 / 4)], intensities = [- 1]\<rparr>]"

subsection \<open>The residual a tree is fitted to\<close>

text \<open>
  What the inner loop of the boosting loop does to the residual of one sample when no
  assertion fails, and the result of the first \<open>k + 1\<close> passes of that loop, that is
  the residual of the sample when tree \<open>k\<close> is fitted.
\<close>

definition stepResidual ::
  "('tree \<Rightarrow> PixelIntensities \<Rightarrow> ShapeResidual) \<Rightarrow> 'tree RegressorData \<Rightarrow> nat \<Rightarrow> TSample \<Rightarrow>
   ShapeResidual" where
  "stepResidual treePredict d k s =
     (if k = 0 then residualSub (residual s) (meanResidual d)
      else residualSub (residual s)
             (matScale (learningRate d) (treePredict (trees d ! (k - 1)) (intensities s))))"

primrec sequentialResidual ::
  "('tree \<Rightarrow> PixelIntensities \<Rightarrow> ShapeResidual) \<Rightarrow> 'tree RegressorData \<Rightarrow> nat \<Rightarrow> TSample \<Rightarrow>
   ShapeResidual" where
  "sequentialResidual treePredict d 0 s = residualSub (residual s) (meanResidual d)"
| "sequentialResidual treePredict d (Suc k) s =
     residualSub (sequentialResidual treePredict d k s)
       (matScale (learningRate d) (treePredict (trees d ! k) (intensities s)))"

text \<open>
  The residual as the specification states it: the initial residual, minus the mean
  residual, minus the learning rate times the sum of the predictions of the trees
  \<open>0, \<dots>, k - 1\<close> on the intensities of the sample.
\<close>

definition boostingResidual ::
  "('tree \<Rightarrow> PixelIntensities \<Rightarrow> ShapeResidual) \<Rightarrow> 'tree RegressorData \<Rightarrow> nat \<Rightarrow> TSample \<Rightarrow>
   ShapeResidual" where
  "boostingResidual treePredict d k s =
     residualSub (residualSub (residual s) (meanResidual d))
       (matScale (learningRate d)
          (residualSum (length (residual s))
             (map (\<lambda>j. treePredict (trees d ! j) (intensities s)) [0..<k])))"

text \<open>
  \<^verbatim>\<open>Tree::fit\<close> may reorder the samples it is given (it partitions them among the
  nodes of the tree); it is taken to leave each of them as it is.
\<close>

definition keepsSamples ::
  "('tree \<Rightarrow> ('g, 'img) TreeTraining \<Rightarrow> 'tree \<times> TSample list \<times> 'g) \<Rightarrow> bool" where
  "keepsSamples treeFit = (\<forall>tree tt. mset (fst (snd (treeFit tree tt))) = mset (samples tt))"

subsection \<open>The contract of the singular value decomposition\<close>

text \<open>
  What \<^verbatim>\<open>JacobiSVD\<close> promises of its result for a matrix \<open>m\<close>: orthogonal factors,
  singular values that are not negative and in decreasing order, and
  \<open>m = U * diag(singularValues) * V\<^sup>T\<close>.
\<close>

definition orthogonal :: "mat2 \<Rightarrow> bool" where
  "orthogonal u = (mmul (mtranspose u) u = mat2Identity)"

definition validSvd :: "mat2 \<Rightarrow> svdResult \<Rightarrow> bool" where
  "validSvd m r =
     (case r of (u, sv, v) \<Rightarrow>
        orthogonal u \<and> orthogonal v \<and> 0 \<le> snd sv \<and> snd sv \<le> fst sv \<and>
        m = mmul (mmul u (fst sv, 0, 0, snd sv)) (mtranspose v))"

text \<open>Shapes and decompositions on which the transform is evaluated.\<close>

definition exampleRectangle :: Shape where
  "exampleRectangle = [(2, 1), (- 2, 1), (- 2, - 1), (2, - 1)]"

definition exampleMirrored :: Shape where
  "exampleMirrored = [(- 2, 1), (2, 1), (2, - 1), (- 2, - 1)]"

definition exampleMirrorSvd :: "mat2 \<Rightarrow> svdResult" where
  "exampleMirrorSvd cov = ((- 1, 0, 0, 1), (4, 1), mat2Identity)"

text \<open>
  The two landmarks \<^verbatim>\<open>(0, 0)\<close> and \<^verbatim>\<open>(0.3f, 0.9f)\<close>: the single-precision numbers
  nearest to 0.3 and 0.9 are \<open>5033165 / 2\<^sup>2\<^sup>4\<close> and \<open>7549747 / 2\<^sup>2\<^sup>3\<close>.
\<close>

definition exampleCollinear :: Shape where
  "exampleCollinear = [(0, 0), (5033165 / 16777216, 7549747 / 8388608)]"

text \<open>
  Three landmarks at \<^verbatim>\<open>(1.7f, 1.7f)\<close>, the single-precision number nearest to 1.7
  being \<open>7130317 / 2\<^sup>2\<^sup>2\<close>, and three landmarks at \<^verbatim>\<open>(1, 1)\<close>.
\<close>

definition exampleCoincident :: Shape where
  "exampleCoincident = [(7130317 / 4194304, 7130317 / 4194304), (7130317 / 4194304, 7130317 / 4194304),
     (7130317 / 4194304, 7130317 / 4194304)]"

definition exampleCoincidentTarget :: Shape where
  "exampleCoincidentTarget = [(1, 1), (1, 1), (1, 1)]"

definition exampleZeroSvd :: "mat2 \<Rightarrow> svdResult" where
  "exampleZeroSvd cov = (mat2Identity, (0, 0), mat2Identity)"

section \<open>Properties\<close>

lemmas round32_defs = round32_def exponent_def roundEven_def pow2_def log2floor.simps vsubF_def
  sumF_def squaredDistance_def Let_def

subsection \<open>The nearest-landmark scan\<close>

lemma closestScan_le:
  "snd (closestScan fl ps x i best) \<le> snd best \<and>
   (\<forall>j<length ps. snd (closestScan fl ps x i best) \<le> landmarkD2 fl ps x j)"
proof (induction ps arbitrary: i best)
  case Nil
  then show ?case by simp
next
  case (Cons p ps)
  show ?case
  proof (cases "squaredDistance fl p x < snd best")
    case True
    have ih: "snd (closestScan fl ps x (i + 1) (i, squaredDistance fl p x)) \<le> squaredDistance fl p x"
      "\<forall>j<length ps. snd (closestScan fl ps x (i + 1) (i, squaredDistance fl p x)) \<le> landmarkD2 fl ps x j"
      using Cons.IH [of "i + 1" "(i, squaredDistance fl p x)"] by simp_all
    show ?thesis using True ih
      by (auto simp: Let_def landmarkD2_def nth_Cons split: nat.splits)
  next
    case False
    have ih: "snd (closestScan fl ps x (i + 1) best) \<le> snd best"
      "\<forall>j<length ps. snd (closestScan fl ps x (i + 1) best) \<le> landmarkD2 fl ps x j"
      using Cons.IH [of "i + 1" best] by simp_all
    show ?thesis using False ih
      by (auto simp: Let_def landmarkD2_def nth_Cons split: nat.splits)
  qed
qed

lemma closestScan_cases:
  "closestScan fl ps x i best = best \<and> (\<forall>j<length ps. snd best \<le> landmarkD2 fl ps x j) \<or>
   (\<exists>m<length ps. closestScan fl ps x i best = (i + int m, landmarkD2 fl ps x m) \<and>
        landmarkD2 fl ps x m < snd best \<and> (\<forall>j<m. landmarkD2 fl ps x m < landmarkD2 fl ps x j))"
proof (induction ps arbitrary: i best)
  case Nil
  then show ?case by simp
next
  case (Cons p ps)
  let ?d = "squaredDistance fl p x"
  have d0: "landmarkD2 fl (p # ps) x 0 = ?d" by (simp add: landmarkD2_def)
  have dS: "\<And>j. landmarkD2 fl (p # ps) x (Suc j) = landmarkD2 fl ps x j" by (simp add: landmarkD2_def)
  show ?case
  proof (cases "?d < snd best")
    case True
    have step: "closestScan fl (p # ps) x i best = closestScan fl ps x (i + 1) (i, ?d)"
      using True by (simp add: Let_def)
    from Cons.IH [of "i + 1" "(i, ?d)"] show ?thesis
    proof
      assume a: "closestScan fl ps x (i + 1) (i, ?d) = (i, ?d) \<and> (\<forall>j<length ps. snd (i, ?d) \<le> landmarkD2 fl ps x j)"
      have "closestScan fl (p # ps) x i best = (i + int 0, landmarkD2 fl (p # ps) x 0)"
        using a step d0 by simp
      moreover have "landmarkD2 fl (p # ps) x 0 < snd best" using True d0 by simp
      ultimately show ?thesis by (intro disjI2 exI [of _ 0]) simp
    next
      assume "\<exists>m<length ps. closestScan fl ps x (i + 1) (i, ?d) = (i + 1 + int m, landmarkD2 fl ps x m) \<and>
        landmarkD2 fl ps x m < snd (i, ?d) \<and> (\<forall>j<m. landmarkD2 fl ps x m < landmarkD2 fl ps x j)"
      then obtain m where m: "m < length ps"
        "closestScan fl ps x (i + 1) (i, ?d) = (i + 1 + int m, landmarkD2 fl ps x m)"
        "landmarkD2 fl ps x m < ?d" "\<forall>j<m. landmarkD2 fl ps x m < landmarkD2 fl ps x j" by auto
      have "\<forall>j<Suc m. landmarkD2 fl (p # ps) x (Suc m) < landmarkD2 fl (p # ps) x j"
      proof (intro allI impI)
        fix j assume "j < Suc m"
        then show "landmarkD2 fl (p # ps) x (Suc m) < landmarkD2 fl (p # ps) x j"
          using m(3,4) d0 dS by (cases j) auto
      qed
      moreover have "closestScan fl (p # ps) x i best = (i + int (Suc m), landmarkD2 fl (p # ps) x (Suc m))"
        using step m(2) dS by simp
      moreover have "landmarkD2 fl (p # ps) x (Suc m) < snd best" using m(3) True dS by simp
      ultimately show ?thesis using m(1) by (intro disjI2 exI [of _ "Suc m"]) simp
    qed
  next
    case False
    have step: "closestScan fl (p # ps) x i best = closestScan fl ps x (i + 1) best"
      using False by (simp add: Let_def)
    from Cons.IH [of "i + 1" best] show ?thesis
    proof
      assume a: "closestScan fl ps x (i + 1) best = best \<and> (\<forall>j<length ps. snd best \<le> landmarkD2 fl ps x j)"
      have "\<forall>j<length (p # ps). snd best \<le> landmarkD2 fl (p # ps) x j"
      proof (intro allI impI)
        fix j assume "j < length (p # ps)"
        then show "snd best \<le> landmarkD2 fl (p # ps) x j"
          using a False d0 dS by (cases j) auto
      qed
      then show ?thesis using a step by simp
    next
      assume "\<exists>m<length ps. closestScan fl ps x (i + 1) best = (i + 1 + int m, landmarkD2 fl ps x m) \<and>
        landmarkD2 fl ps x m < snd best \<and> (\<forall>j<m. landmarkD2 fl ps x m < landmarkD2 fl ps x j)"
      then obtain m where m: "m < length ps"
        "closestScan fl ps x (i + 1) best = (i + 1 + int m, landmarkD2 fl ps x m)"
        "landmarkD2 fl ps x m < snd best" "\<forall>j<m. landmarkD2 fl ps x m < landmarkD2 fl ps x j" by auto
      have "\<forall>j<Suc m. landmarkD2 fl (p # ps) x (Suc m) < landmarkD2 fl (p # ps) x j"
      proof (intro allI impI)
        fix j assume "j < Suc m"
        then show "landmarkD2 fl (p # ps) x (Suc m) < landmarkD2 fl (p # ps) x j"
          using m(3,4) False d0 dS by (cases j) auto
      qed
      moreover have "closestScan fl (p # ps) x i best = (i + int (Suc m), landmarkD2 fl (p # ps) x (Suc m))"
        using step m(2) dS by simp
      moreover have "landmarkD2 fl (p # ps) x (Suc m) < snd best" using m(3) dS by simp
      ultimately show ?thesis using m(1) by (intro disjI2 exI [of _ "Suc m"]) simp
    qed
  qed
qed

lemma findClosest_hit:
  assumes "\<exists>j<length s. landmarkD2 fl s x j < FLT_MAX"
  shows "\<exists>m<length s. findClosestLandmarkIndex fl s x = int m \<and>
           (\<forall>j<length s. landmarkD2 fl s x m \<le> landmarkD2 fl s x j) \<and>
           (\<forall>j<m. landmarkD2 fl s x m < landmarkD2 fl s x j)"
proof -
  from closestScan_cases [of fl s x 0 "(-1, FLT_MAX)"] show ?thesis
  proof
    assume "closestScan fl s x 0 (-1, FLT_MAX) = (-1, FLT_MAX) \<and>
            (\<forall>j<length s. snd (-1::int, FLT_MAX) \<le> landmarkD2 fl s x j)"
    then have "\<forall>j<length s. FLT_MAX \<le> landmarkD2 fl s x j" by simp
    with assms show ?thesis by fastforce
  next
    assume "\<exists>m<length s. closestScan fl s x 0 (-1, FLT_MAX) = (0 + int m, landmarkD2 fl s x m) \<and>
              landmarkD2 fl s x m < snd (-1::int, FLT_MAX) \<and> (\<forall>j<m. landmarkD2 fl s x m < landmarkD2 fl s x j)"
    then obtain m where m: "m < length s"
      "closestScan fl s x 0 (-1, FLT_MAX) = (0 + int m, landmarkD2 fl s x m)"
      "\<forall>j<m. landmarkD2 fl s x m < landmarkD2 fl s x j" by auto
    have "\<forall>j<length s. landmarkD2 fl s x m \<le> landmarkD2 fl s x j"
      using closestScan_le [of fl s x 0 "(-1, FLT_MAX)"] m(2) by simp
    moreover have "findClosestLandmarkIndex fl s x = int m"
      using m(2) by (simp add: findClosestLandmarkIndex_def)
    ultimately show ?thesis using m(1,3) by blast
  qed
qed

lemma findClosest_miss:
  assumes "\<forall>j<length s. FLT_MAX \<le> landmarkD2 fl s x j"
  shows "findClosestLandmarkIndex fl s x = -1"
proof -
  from closestScan_cases [of fl s x 0 "(-1, FLT_MAX)"] show ?thesis
  proof
    assume "closestScan fl s x 0 (-1, FLT_MAX) = (-1, FLT_MAX) \<and>
            (\<forall>j<length s. snd (-1::int, FLT_MAX) \<le> landmarkD2 fl s x j)"
    then show ?thesis by (simp add: findClosestLandmarkIndex_def)
  next
    assume "\<exists>m<length s. closestScan fl s x 0 (-1, FLT_MAX) = (0 + int m, landmarkD2 fl s x m) \<and>
              landmarkD2 fl s x m < snd (-1::int, FLT_MAX) \<and> (\<forall>j<m. landmarkD2 fl s x m < landmarkD2 fl s x j)"
    then obtain m where "m < length s" "landmarkD2 fl s x m < FLT_MAX" by auto
    with assms show ?thesis by fastforce
  qed
qed


text \<open>
  Claim C8, as the code has it. The scan starts from \<^verbatim>\<open>bestD2 = FLT_MAX\<close> and replaces
  the best landmark only on a strictly smaller computed squared distance. When some
  landmark has a computed squared distance below \<^verbatim>\<open>FLT_MAX\<close>, the returned index is
  in \<open>[0, L)\<close>, its computed squared distance is minimal over all landmarks, and every
  landmark before it has a strictly larger one (the lowest minimising index).
\<close>

theorem findClosestLandmarkIndex_nearest_lowest:
  assumes "\<exists>j<length s. landmarkD2 fl s x j < FLT_MAX"
  shows "0 \<le> findClosestLandmarkIndex fl s x \<and> findClosestLandmarkIndex fl s x < int (length s) \<and>
         (\<forall>j<length s. landmarkD2 fl s x (nat (findClosestLandmarkIndex fl s x)) \<le> landmarkD2 fl s x j) \<and>
         (\<forall>j<nat (findClosestLandmarkIndex fl s x).
             landmarkD2 fl s x (nat (findClosestLandmarkIndex fl s x)) < landmarkD2 fl s x j)"
  using findClosest_hit [OF assms] by auto

theorem findClosestLandmarkIndex_nearest_lowest_witness:
  "(\<exists>j<length [(2, 0), (0, 1), (1, 0::real)].
      landmarkD2 round32 [(2, 0), (0, 1), (1, 0)] (0, 0) j < FLT_MAX) \<and>
   findClosestLandmarkIndex round32 [(2, 0), (0, 1), (1, 0)] (0, 0) = 1 \<and>
   landmarkD2 round32 [(2, 0), (0, 1), (1, 0)] (0, 0) 1 \<le> landmarkD2 round32 [(2, 0), (0, 1), (1, 0)] (0, 0) 2 \<and>
   landmarkD2 round32 [(2, 0), (0, 1), (1, 0)] (0, 0) 1 < landmarkD2 round32 [(2, 0), (0, 1), (1, 0)] (0, 0) 0"
proof -
  have h: "\<exists>j<length [(2, 0), (0, 1), (1, 0::real)].
      landmarkD2 round32 [(2, 0), (0, 1), (1, 0)] (0, 0) j < FLT_MAX"
    by (rule exI [of _ 0]) (simp add: landmarkD2_def round32_defs FLT_MAX_def)
  have v: "findClosestLandmarkIndex round32 [(2, 0), (0, 1), (1, 0)] (0, 0) = 1"
    by (simp add: findClosestLandmarkIndex_def round32_defs FLT_MAX_def)
  have a: "\<forall>j<length [(2, 0), (0, 1), (1, 0::real)].
             landmarkD2 round32 [(2, 0), (0, 1), (1, 0)] (0, 0) 1 \<le>
             landmarkD2 round32 [(2, 0), (0, 1), (1, 0)] (0, 0) j"
    and b: "\<forall>j<(1::nat). landmarkD2 round32 [(2, 0), (0, 1), (1, 0)] (0, 0) 1 <
             landmarkD2 round32 [(2, 0), (0, 1), (1, 0)] (0, 0) j"
    using findClosestLandmarkIndex_nearest_lowest [OF h] by (simp_all add: v)
  from a have "landmarkD2 round32 [(2, 0), (0, 1), (1, 0)] (0, 0) 1 \<le>
      landmarkD2 round32 [(2, 0), (0, 1), (1, 0)] (0, 0) 2"
    by simp
  moreover from b have "landmarkD2 round32 [(2, 0), (0, 1), (1, 0)] (0, 0) 1 <
      landmarkD2 round32 [(2, 0), (0, 1), (1, 0)] (0, 0) 0"
    by simp
  ultimately show ?thesis using h v by blast
qed

text \<open>
  Claim C8 as stated fails twice. For the shape with the one landmark \<open>(2\<^sup>6\<^sup>4, 0)\<close> and
  the query \<open>(0, 0)\<close> the computed squared distance is not below \<^verbatim>\<open>FLT_MAX\<close>, the
  comparison never succeeds and the function returns \<open>-1\<close>. For the landmarks
  \<open>(1 + 2\<^sup>-\<^sup>2\<^sup>3, 0)\<close> and \<open>(1, 2\<^sup>-\<^sup>1\<^sup>1)\<close> and the same query the two computed squared
  distances are equal and the function returns index \<open>0\<close>, while the second landmark
  is the nearer one.
\<close>

theorem findClosestLandmarkIndex_counterexample:
  "findClosestLandmarkIndex round32 [(2 ^ 64, 0)] (0, 0) = - 1 \<and>
   findClosestLandmarkIndex round32 [(1 + 1 / 2 ^ 23, 0), (1, 1 / 2 ^ 11)] (0, 0) = 0 \<and>
   squaredNorm (vsub (1, 1 / 2 ^ 11) (0, 0)) < squaredNorm (vsub (1 + 1 / 2 ^ 23, 0) (0, 0))"
proof -
  have a: "findClosestLandmarkIndex round32 [(2 ^ 64, 0)] (0, 0) = - 1"
    by (simp add: findClosestLandmarkIndex_def round32_defs FLT_MAX_def)
  have b: "findClosestLandmarkIndex round32 [(1 + 1 / 2 ^ 23, 0), (1, 1 / 2 ^ 11)] (0, 0) = 0"
    by (simp add: findClosestLandmarkIndex_def round32_defs FLT_MAX_def)
  have c: "squaredNorm (vsub (1, 1 / 2 ^ 11) (0, 0)) < squaredNorm (vsub (1 + 1 / 2 ^ 23, 0) (0, 0))"
    by (simp add: squaredNorm_def vsub_def)
  show ?thesis using a b c by blast
qed


subsection \<open>Coordinates relative to the nearest landmark\<close>

lemma relativeLoop_ok:
  assumes "\<forall>a\<in>set as. \<exists>j<length s. landmarkD2 fl s a j < FLT_MAX"
  shows "\<exists>rel cl. relativeLoop fl s as = Inr (rel, cl) \<and> length rel = length as \<and> length cl = length as \<and>
           (\<forall>i<length as. cl ! i = findClosestLandmarkIndex fl s (as ! i) \<and>
               0 \<le> cl ! i \<and> cl ! i < int (length s) \<and>
               rel ! i = vsubF fl (as ! i) (s ! nat (cl ! i)))"
  using assms
proof (induction as)
  case Nil
  then show ?case by simp
next
  case (Cons a as)
  from Cons.prems have "\<exists>j<length s. landmarkD2 fl s a j < FLT_MAX" by simp
  from findClosest_hit [OF this] obtain m where m: "m < length s" "findClosestLandmarkIndex fl s a = int m"
    by blast
  from Cons.prems have "\<forall>a\<in>set as. \<exists>j<length s. landmarkD2 fl s a j < FLT_MAX" by simp
  from Cons.IH [OF this] obtain rel cl where r: "relativeLoop fl s as = Inr (rel, cl)"
    "length rel = length as" "length cl = length as"
    "\<forall>i<length as. cl ! i = findClosestLandmarkIndex fl s (as ! i) \<and>
               0 \<le> cl ! i \<and> cl ! i < int (length s) \<and>
               rel ! i = vsubF fl (as ! i) (s ! nat (cl ! i))" by blast
  have e: "relativeLoop fl s (a # as) = Inr (vsubF fl a (s ! m) # rel, int m # cl)"
    using m r(1) by (simp add: Let_def col_def)
  have "\<forall>i<length (a # as). (int m # cl) ! i = findClosestLandmarkIndex fl s ((a # as) ! i) \<and>
               0 \<le> (int m # cl) ! i \<and> (int m # cl) ! i < int (length s) \<and>
               (vsubF fl a (s ! m) # rel) ! i = vsubF fl ((a # as) ! i) (s ! nat ((int m # cl) ! i))"
  proof (intro allI impI)
    fix i assume "i < length (a # as)"
    then show "(int m # cl) ! i = findClosestLandmarkIndex fl s ((a # as) ! i) \<and>
               0 \<le> (int m # cl) ! i \<and> (int m # cl) ! i < int (length s) \<and>
               (vsubF fl a (s ! m) # rel) ! i = vsubF fl ((a # as) ! i) (s ! nat ((int m # cl) ! i))"
      using m r(4) by (cases i) auto
  qed
  moreover have "length (vsubF fl a (s ! m) # rel) = length (a # as)"
    "length (int m # cl) = length (a # as)" using r(2,3) by simp_all
  ultimately show ?case using e by blast
qed

text \<open>
  Claim C10, as the code has it. \<^verbatim>\<open>shapeRelativePixelCoordinates\<close> reads the column
  \<^verbatim>\<open>s.col(idx)\<close> at the index returned by the scan and stores the single-precision
  difference. When every absolute coordinate has a landmark at a computed squared distance
  below \<^verbatim>\<open>FLT_MAX\<close>, the two output arrays have the length of the input, every anchor
  index is the one the scan returns and lies in \<open>[0, L)\<close>, and the relative coordinate
  is the rounded difference of the absolute coordinate and the landmark at the anchor
  index.
\<close>

theorem shapeRelativePixelCoordinates_difference:
  assumes "\<forall>i<length abscoords. \<exists>j<length s. landmarkD2 fl s (abscoords ! i) j < FLT_MAX"
  shows "\<exists>relcoords closestLandmarks.
           shapeRelativePixelCoordinates fl s abscoords = Inr (relcoords, closestLandmarks) \<and>
           length relcoords = length abscoords \<and> length closestLandmarks = length abscoords \<and>
           (\<forall>i<length abscoords.
               closestLandmarks ! i = findClosestLandmarkIndex fl s (abscoords ! i) \<and>
               0 \<le> closestLandmarks ! i \<and> closestLandmarks ! i < int (length s) \<and>
               relcoords ! i = vsubF fl (abscoords ! i) (s ! nat (closestLandmarks ! i)))"
proof -
  have "\<forall>a\<in>set abscoords. \<exists>j<length s. landmarkD2 fl s a j < FLT_MAX"
    using assms by (metis in_set_conv_nth)
  from relativeLoop_ok [OF this] show ?thesis
    by (simp add: shapeRelativePixelCoordinates_def)
qed

theorem shapeRelativePixelCoordinates_difference_witness:
  "(\<exists>j<length [(0, 0), (4, 0::real)]. landmarkD2 round32 [(0, 0), (4, 0)] (3, 1) j < FLT_MAX) \<and>
   shapeRelativePixelCoordinates round32 [(0, 0), (4, 0)] [(3, 1)] = Inr ([(-1, 1)], [1]) \<and>
   findClosestLandmarkIndex round32 [(0, 0), (4, 0)] (3, 1) = 1 \<and>
   vsubF round32 (3, 1) (4, 0) = (- 1, 1)"
proof -
  have h0: "\<exists>j<length [(0, 0), (4, 0::real)]. landmarkD2 round32 [(0, 0), (4, 0)] (3, 1) j < FLT_MAX"
    by (rule exI [of _ 0]) (simp add: landmarkD2_def round32_defs FLT_MAX_def)
  then have h: "\<forall>i<length [(3, 1::real)]. \<exists>j<length [(0, 0), (4, 0::real)].
                  landmarkD2 round32 [(0, 0), (4, 0)] ([(3, 1)] ! i) j < FLT_MAX"
    by simp
  have v: "shapeRelativePixelCoordinates round32 [(0, 0), (4, 0)] [(3, 1)] = Inr ([(-1, 1)], [1])"
    by (simp add: shapeRelativePixelCoordinates_def findClosestLandmarkIndex_def col_def
        round32_defs FLT_MAX_def)
  from shapeRelativePixelCoordinates_difference [OF h] v
  have "[1] ! 0 = findClosestLandmarkIndex round32 [(0, 0), (4, 0)] ([(3, 1)] ! 0)"
    "[(- 1, 1)] ! 0 = vsubF round32 ([(3, 1)] ! 0) ([(0, 0), (4, 0)] ! nat ([1] ! 0))"
    by auto
  then have "findClosestLandmarkIndex round32 [(0, 0), (4, 0)] (3, 1) = 1"
    "vsubF round32 (3, 1) (4, 0) = (- 1, 1)" by simp_all
  then show ?thesis using h0 v by blast
qed

text \<open>
  Claim C10 as stated fails twice. For the one-landmark shape \<open>(2\<^sup>6\<^sup>4, 0)\<close> and the
  coordinate \<open>(0, 0)\<close> the scan returns \<open>-1\<close> and the column read is outside the
  shape. For the one-landmark shape \<open>(3, 0)\<close> and the coordinate \<open>(0.1f, 0)\<close> the
  rounded difference plus the landmark is not the coordinate, with the sum exact or
  rounded.
\<close>

theorem shapeRelativePixelCoordinates_counterexample:
  "shapeRelativePixelCoordinates round32 [(2 ^ 64, 0)] [(0, 0)] = Inl IndexOutOfRange \<and>
   shapeRelativePixelCoordinates round32 [(3, 0)] [(13421773 / 134217728, 0)] =
     Inr ([(- (6081741 / 2097152), 0)], [0]) \<and>
   vadd (- (6081741 / 2097152), 0) (3, 0) \<noteq> (13421773 / 134217728, 0) \<and>
   round32 (- (6081741 / 2097152) + 3) \<noteq> 13421773 / 134217728"
proof -
  have a: "shapeRelativePixelCoordinates round32 [(2 ^ 64, 0)] [(0, 0)] = Inl IndexOutOfRange"
    by (simp add: shapeRelativePixelCoordinates_def findClosestLandmarkIndex_def col_def
        round32_defs FLT_MAX_def)
  have b: "shapeRelativePixelCoordinates round32 [(3, 0)] [(13421773 / 134217728, 0)] =
     Inr ([(- (6081741 / 2097152), 0)], [0])"
    by (simp add: shapeRelativePixelCoordinates_def findClosestLandmarkIndex_def col_def
        round32_defs FLT_MAX_def)
  have c: "vadd (- (6081741 / 2097152), 0) (3, 0) \<noteq> (13421773 / 134217728, 0)"
    by (simp add: vadd_def)
  have d: "round32 (- (6081741 / 2097152) + 3) \<noteq> 13421773 / 134217728"
    by (simp add: round32_defs)
  show ?thesis using a b c d by blast
qed


subsection \<open>Evaluation of the small training run\<close>

lemmas example_defs = exampleCanonical_def exampleSvd_def exampleReadImage_def exampleTreePredict_def
  exampleTreeFit_def exampleParams_def exampleTrainingData_def exampleTraining_def
  exampleEmptyTraining_def exampleRegressor_def exampleTrained_def

lemma example_relative:
  "shapeRelativePixelCoordinates round32 [(0, 0), (1, 1)] [(1 / 2, 3 / 2)] = Inr ([(- (1 / 2), 1 / 2)], [1])"
  by (simp add: shapeRelativePixelCoordinates_def findClosestLandmarkIndex_def col_def
        round32_defs FLT_MAX_def)

lemma example_mean:
  "rowwiseMean round32 [(0, 0), (1, 1)] = (1 / 2, 1 / 2)"
  "rowwiseMean round32 [(1, 1), (2, 2)] = (3 / 2, 3 / 2)"
  by (simp_all add: rowwiseMean_def round32_defs)

lemma example_centered:
  "centered round32 [(0, 0), (1, 1)] = [(- (1 / 2), - (1 / 2)), (1 / 2, 1 / 2)]"
  "centered round32 [(1, 1), (2, 2)] = [(- (1 / 2), - (1 / 2)), (1 / 2, 1 / 2)]"
  by (simp_all add: centered_def example_mean) (simp_all add: round32_defs)

lemma example_covariance:
  "covariance round32 [(0, 0), (1, 1)] [(0, 0), (1, 1)] = (1 / 4, 1 / 4, 1 / 4, 1 / 4)"
  "covariance round32 [(0, 0), (1, 1)] [(1, 1), (2, 2)] = (1 / 4, 1 / 4, 1 / 4, 1 / 4)"
  by (simp_all add: covariance_def example_centered) (simp_all add: round32_defs)

lemma example_variance:
  "sourceVariance round32 [(0, 0), (1, 1)] = 1 / 2"
  by (simp add: sourceVariance_def example_centered) (simp add: round32_defs)

lemma example_transform:
  "estimateSimilarityTransform round32 exampleSvd [(0, 0), (1, 1)] [(0, 0), (1, 1)] =
     Inr \<lparr>linear = (4, 0, 0, 4), translation = (- (3 / 2), - (3 / 2))\<rparr>"
  "estimateSimilarityTransform round32 exampleSvd [(0, 0), (1, 1)] [(1, 1), (2, 2)] =
     Inr \<lparr>linear = (4, 0, 0, 4), translation = (- (1 / 2), - (1 / 2))\<rparr>"
  by (simp_all add: estimateSimilarityTransform_def example_mean example_covariance example_variance
      exampleSvd_def correction_def rotationPart_def scaleFactor_def mat2Identity_def vsub_def Let_def)

lemmas eval_defs = fit_def fitStart_def sampleCoordinates_def uniformReal_def col_def vsub_def vadd_def vscale_def
  bindE_def matZero_def matSub_def matAdd_def matScale_def matDiv_def resize_def
  readPixelIntensities_def subtractStep_def updateResidual_def predict_def residualAdd_def
  residualSum_def example_relative example_transform Let_def

lemma fit_example:
  "fit round32 exampleCanonical exampleSvd exampleReadImage exampleTreePredict exampleTreeFit []
     exampleRegressor exampleTraining = Inr (exampleTrained, 4, False)"
  by (simp add: example_defs eval_defs upt_rec numeral_2_eq_2)

subsection \<open>Regressor::sampleCoordinates\<close>

text \<open>
  Every ordinate the sampling loop produces is at least the largest ordinate it is given,
  for an engine whose numbers are not negative.
\<close>

lemma sampleLoop_ordinates:
  assumes "\<And>g. 0 \<le> fst (canonical g)" and "snd minC \<le> snd maxC"
  shows "\<forall>p\<in>set (fst (sampleLoop canonical minC maxC n g)). snd maxC \<le> snd p"
proof (induction n arbitrary: g)
  case 0
  then show ?case by simp
next
  case (Suc n)
  obtain u1 g1 where c1: "canonical g = (u1, g1)" by (cases "canonical g") auto
  obtain u2 g2 where c2: "canonical g1 = (u2, g2)" by (cases "canonical g1") auto
  obtain rest g3 where r: "sampleLoop canonical minC maxC n g2 = (rest, g3)"
    by (cases "sampleLoop canonical minC maxC n g2") auto
  have "0 \<le> u2" using assms(1) [of g1] c2 by simp
  then have "snd maxC \<le> snd maxC + u2 * (snd maxC - snd minC)" using assms(2) by simp
  moreover have "\<forall>p\<in>set rest. snd maxC \<le> snd p" using Suc.IH [of g2] r by simp
  ultimately show ?case using c1 c2 r by (simp add: uniformReal_def)
qed

text \<open>
  Claim C1 does not hold of the code. Line 164 adds the abscissa draw to \<^verbatim>\<open>minC.x()\<close>,
  line 165 adds the ordinate draw to \<^verbatim>\<open>maxC.y()\<close>: for the mean shape with the
  landmarks \<open>(0, 0)\<close> and \<open>(1, 1)\<close>, one coordinate and an engine yielding one half, the
  coordinate produced is \<open>(1/2, 3/2)\<close>, whose ordinate is above the largest ordinate
  \<open>1\<close> of the mean shape.
\<close>

theorem sampleCoordinates_ordinate_above_box: 
  "sampleCoordinates exampleCanonical exampleTraining = Inr ([(1 / 2, 3 / 2)], 2) \<and>
   maxCoeff (map snd (RegressorTraining.meanShape exampleTraining)) = 1"
  by (simp add: example_defs eval_defs)

subsection \<open>Regressor::predict\<close>

lemma length_residualAdd: "length a = length b \<Longrightarrow> length (residualAdd a b) = length a"
  by (simp add: residualAdd_def)

lemma length_matScale: "length (matScale c a) = length a"
  by (simp add: matScale_def)

lemma length_residualSum:
  "\<forall>r\<in>set rs. length r = n \<Longrightarrow> length (residualSum n rs) = n"
  by (induction rs) (simp_all add: residualSum_def residualAdd_def)

lemma residualSum_Cons: "residualSum n (r # rs) = residualAdd r (residualSum n rs)"
  by (simp add: residualSum_def)

lemma residualAdd_scale_assoc:
  assumes "length b = length a" "length c = length a"
  shows "residualAdd (residualAdd a (matScale r b)) (matScale r c) =
         residualAdd a (matScale r (residualAdd b c))"
proof (rule nth_equalityI)
  show "length (residualAdd (residualAdd a (matScale r b)) (matScale r c)) =
        length (residualAdd a (matScale r (residualAdd b c)))"
    using assms by (simp add: residualAdd_def matScale_def)
next
  fix i assume "i < length (residualAdd (residualAdd a (matScale r b)) (matScale r c))"
  then have i: "i < length a" using assms by (simp add: residualAdd_def matScale_def)
  then show "residualAdd (residualAdd a (matScale r b)) (matScale r c) ! i =
        residualAdd a (matScale r (residualAdd b c)) ! i"
    using assms by (simp add: residualAdd_def matScale_def vadd_def vscale_def algebra_simps)
qed

lemma residualAdd_zero:
  "residualAdd a (matScale r (replicate (length a) (0, 0))) = a"
  by (rule nth_equalityI) (simp_all add: residualAdd_def matScale_def vadd_def vscale_def)

lemma accumulate_sum:
  assumes "\<forall>t\<in>set ts. length (treePredict t ints) = length sr"
  shows "accumulate treePredict lr ints ts sr =
         Inr (residualAdd sr (matScale lr (residualSum (length sr) (map (\<lambda>t. treePredict t ints) ts))))"
  using assms
proof (induction ts arbitrary: sr)
  case Nil
  then show ?case by (simp add: residualSum_def residualAdd_zero)
next
  case (Cons t ts)
  let ?p = "treePredict t ints"
  let ?sr1 = "residualAdd sr (matScale lr ?p)"
  let ?S = "residualSum (length sr) (map (\<lambda>t. treePredict t ints) ts)"
  have lp: "length ?p = length sr" using Cons.prems by simp
  have l1: "length ?sr1 = length sr" using lp by (simp add: residualAdd_def matScale_def)
  have step: "matAdd sr (matScale lr ?p) = Inr ?sr1"
    using lp by (simp add: matAdd_def residualAdd_def matScale_def)
  have "\<forall>t\<in>set ts. length (treePredict t ints) = length ?sr1" using Cons.prems l1 by simp
  from Cons.IH [OF this] have ih: "accumulate treePredict lr ints ts ?sr1 =
      Inr (residualAdd ?sr1 (matScale lr ?S))" using l1 by simp
  have lS: "length ?S = length sr"
    using Cons.prems by (intro length_residualSum) simp
  have "residualAdd ?sr1 (matScale lr ?S) = residualAdd sr (matScale lr (residualAdd ?p ?S))"
    using lp lS by (rule residualAdd_scale_assoc)
  then show ?case using step ih by (simp add: bindE_def residualSum_Cons)
qed

text \<open>
  Claim C3. When the similarity transform from the stored mean shape to the query shape
  is estimated, the intensities are read under it, and every tree predicts a residual
  with the columns of the stored mean residual, \<^verbatim>\<open>predict\<close> returns the mean residual
  (with weight one) plus the learning rate times the sum of the trees' predictions on
  those intensities.
\<close>

theorem predict_meanResidual_plus_scaled_trees:
  assumes "estimateSimilarityTransform fl jacobiSvd (meanShape d) shape = Inr tf"
    and "readPixelIntensities readImage d tf shape img = Inr ints"
    and "\<forall>t\<in>set (trees d). length (treePredict t ints) = length (meanResidual d)"
  shows "predict fl jacobiSvd readImage treePredict d img shape =
         Inr (residualAdd (meanResidual d)
                (matScale (learningRate d)
                   (residualSum (length (meanResidual d)) (map (\<lambda>t. treePredict t ints) (trees d)))))"
proof -
  have "accumulate treePredict (learningRate d) ints (trees d) (meanResidual d) =
        Inr (residualAdd (meanResidual d)
               (matScale (learningRate d)
                  (residualSum (length (meanResidual d)) (map (\<lambda>t. treePredict t ints) (trees d)))))"
    using assms(3) by (rule accumulate_sum)
  then show ?thesis using assms(1,2) by (simp add: predict_def bindE_def)
qed

theorem predict_meanResidual_plus_scaled_trees_witness:
  "estimateSimilarityTransform round32 exampleSvd (meanShape exampleTrained) [(0, 0), (1, 1)] =
     Inr \<lparr>linear = (4, 0, 0, 4), translation = (- (3 / 2), - (3 / 2))\<rparr> \<and>
   readPixelIntensities exampleReadImage exampleTrained
     \<lparr>linear = (4, 0, 0, 4), translation = (- (3 / 2), - (3 / 2))\<rparr> [(0, 0), (1, 1)] () = Inr [- 1] \<and>
   predict round32 exampleSvd exampleReadImage exampleTreePredict exampleTrained () [(0, 0), (1, 1)] =
     Inr [(- (5 / 8), - (5 / 8)), (3 / 8, 3 / 8)]"
proof -
  have h1: "estimateSimilarityTransform round32 exampleSvd (meanShape exampleTrained) [(0, 0), (1, 1)] =
     Inr \<lparr>linear = (4, 0, 0, 4), translation = (- (3 / 2), - (3 / 2))\<rparr>"
    by (simp add: example_defs eval_defs)
  have h2: "readPixelIntensities exampleReadImage exampleTrained
     \<lparr>linear = (4, 0, 0, 4), translation = (- (3 / 2), - (3 / 2))\<rparr> [(0, 0), (1, 1)] () = Inr [- 1]"
    by (simp add: example_defs eval_defs)
  have h3: "\<forall>t\<in>set (trees exampleTrained). length (exampleTreePredict t [- 1]) = length (meanResidual exampleTrained)"
    by (simp add: example_defs)
  show ?thesis
    using h1 h2 predict_meanResidual_plus_scaled_trees
      [where treePredict = exampleTreePredict and ints = "[- 1]" and d = exampleTrained
        and fl = round32, OF h1 h2 h3]
    by (simp add: example_defs residualAdd_def residualSum_def matScale_def vadd_def vscale_def)
qed

subsection \<open>The value returned by Regressor::fit\<close>

text \<open>
  Claim C9. Whenever \<^verbatim>\<open>fit\<close> returns, the boolean it returns is false, also after a
  training run that fitted every tree.
\<close>

theorem fit_returns_false:
  "fit fl canonical jacobiSvd readImage treePredict treeFit emptyTree d t = Inr (d', g', b) \<Longrightarrow> b = False"
  by (auto simp: fit_def bindE_def Let_def split: if_splits sum.splits prod.splits)

theorem fit_returns_false_witness:
  "fit round32 exampleCanonical exampleSvd exampleReadImage exampleTreePredict exampleTreeFit [] exampleRegressor exampleTraining =
     Inr (exampleTrained, 4, False)"
proof -
  obtain b where h: "fit round32 exampleCanonical exampleSvd exampleReadImage exampleTreePredict exampleTreeFit [] exampleRegressor exampleTraining =
     Inr (exampleTrained, 4, b)" using fit_example by blast
  from fit_returns_false [OF h] h show ?thesis by simp
qed


subsection \<open>The boosting loop of Regressor::fit\<close>

lemma bindE_Inr_iff: "bindE m f = Inr y \<longleftrightarrow> (\<exists>x. m = Inr x \<and> f x = Inr y)"
  by (cases m) (simp_all add: bindE_def)

lemma mapE_Inr_map:
  assumes "mapE f xs = Inr ys" and "\<And>x y. x \<in> set xs \<Longrightarrow> f x = Inr y \<Longrightarrow> y = g x"
  shows "ys = map g xs"
  using assms
proof (induction xs arbitrary: ys)
  case Nil
  then show ?case by simp
next
  case (Cons x xs)
  from Cons.prems(1) obtain y zs where y: "f x = Inr y" and zs: "mapE f xs = Inr zs" and ys: "ys = y # zs"
    by (auto simp: bindE_Inr_iff)
  have "zs = map g xs" using Cons.IH [OF zs] Cons.prems(2) by simp
  moreover have "y = g x" using Cons.prems(2) [of x y] y by simp
  ultimately show ?case using ys by simp
qed

lemma mapE_Inr_all:
  assumes "mapE f xs = Inr ys" and "x \<in> set xs"
  shows "\<exists>y. f x = Inr y"
  using assms
proof (induction xs arbitrary: ys)
  case Nil
  then show ?case by simp
next
  case (Cons a xs)
  from Cons.prems(1) obtain y zs where y: "f a = Inr y" and zs: "mapE f xs = Inr zs"
    by (auto simp: bindE_Inr_iff)
  show ?case
  proof (cases "x = a")
    case True
    then show ?thesis using y by blast
  next
    case False
    then have "x \<in> set xs" using Cons.prems(2) by simp
    from Cons.IH [OF zs this] show ?thesis .
  qed
qed

lemma updateResidual_Inr:
  assumes "updateResidual treePredict d k s = Inr s'"
  shows "s' = s\<lparr>residual := stepResidual treePredict d k s\<rparr>"
  using assms
  by (auto simp: updateResidual_def stepResidual_def matSub_def residualSub_def bindE_Inr_iff
      split: if_splits)

lemma updateResidual_length:
  assumes "updateResidual treePredict d k s = Inr s'"
  shows "k = 0 \<longrightarrow> length (meanResidual d) = length (residual s)"
    and "k > 0 \<longrightarrow> length (treePredict (trees d ! (k - 1)) (intensities s)) = length (residual s)"
  using assms
  by (auto simp: updateResidual_def matSub_def matScale_def bindE_Inr_iff split: if_splits)

lemma subtractStep_Inr:
  assumes "subtractStep treePredict d k ss = Inr ss'"
  shows "ss' = map (\<lambda>s. s\<lparr>residual := stepResidual treePredict d k s\<rparr>) ss"
  using assms unfolding subtractStep_def
  by (rule mapE_Inr_map) (rule updateResidual_Inr)

lemma boostLoop_append:
  "boostLoop treePredict treeFit (xs @ ys) st =
   bindE (boostLoop treePredict treeFit xs st) (boostLoop treePredict treeFit ys)"
proof (induction xs arbitrary: st)
  case Nil
  then show ?case by (simp add: bindE_def)
next
  case (Cons k ks)
  obtain d tt where st: "st = (d, tt)" by (cases st)
  show ?case
  proof (cases "subtractStep treePredict d k (samples tt)")
    case (Inl e)
    then show ?thesis using st by (simp add: bindE_def)
  next
    case (Inr ss)
    then show ?thesis using st Cons.IH by (simp add: bindE_def split: prod.splits)
  qed
qed

lemma length_residualSub: "length b = length a \<Longrightarrow> length (residualSub a b) = length a"
  by (simp add: residualSub_def)

lemma residualSum_nth:
  assumes "\<forall>r\<in>set rs. length r = n" and "i < n"
  shows "residualSum n rs ! i =
         (sum_list (map (\<lambda>r. fst (r ! i)) rs), sum_list (map (\<lambda>r. snd (r ! i)) rs))"
  using assms
proof (induction rs)
  case Nil
  then show ?case by (simp add: residualSum_def)
next
  case (Cons r rs)
  have l: "length (residualSum n rs) = n" using Cons.prems(1) by (intro length_residualSum) simp
  have "residualSum n (r # rs) ! i = vadd (r ! i) (residualSum n rs ! i)"
    using Cons.prems l by (simp add: residualSum_def residualAdd_def)
  then show ?case using Cons by (simp add: vadd_def)
qed

lemma length_sequentialResidual:
  assumes "length (meanResidual d) = length (residual s)"
    and "\<forall>j<k. length (treePredict (trees d ! j) (intensities s)) = length (residual s)"
  shows "length (sequentialResidual treePredict d k s) = length (residual s)"
  using assms by (induction k) (simp_all add: residualSub_def matScale_def)

lemma sequentialResidual_nth:
  assumes "length (meanResidual d) = length (residual s)"
    and "\<forall>j<k. length (treePredict (trees d ! j) (intensities s)) = length (residual s)"
    and "i < length (residual s)"
  shows "sequentialResidual treePredict d k s ! i =
         (fst (residual s ! i) - fst (meanResidual d ! i) -
            learningRate d * sum_list (map (\<lambda>j. fst (treePredict (trees d ! j) (intensities s) ! i)) [0..<k]),
          snd (residual s ! i) - snd (meanResidual d ! i) -
            learningRate d * sum_list (map (\<lambda>j. snd (treePredict (trees d ! j) (intensities s) ! i)) [0..<k]))"
  using assms
proof (induction k)
  case 0
  then show ?case by (simp add: residualSub_def vsub_def)
next
  case (Suc k)
  have l: "length (sequentialResidual treePredict d k s) = length (residual s)"
    using Suc.prems by (intro length_sequentialResidual) simp_all
  have p: "length (treePredict (trees d ! k) (intensities s)) = length (residual s)"
    using Suc.prems(2) by simp
  have "sequentialResidual treePredict d (Suc k) s ! i =
        vsub (sequentialResidual treePredict d k s ! i)
             (vscale (learningRate d) (treePredict (trees d ! k) (intensities s) ! i))"
    using l p Suc.prems(3) by (simp add: residualSub_def matScale_def)
  moreover have "sequentialResidual treePredict d k s ! i =
         (fst (residual s ! i) - fst (meanResidual d ! i) -
            learningRate d * sum_list (map (\<lambda>j. fst (treePredict (trees d ! j) (intensities s) ! i)) [0..<k]),
          snd (residual s ! i) - snd (meanResidual d ! i) -
            learningRate d * sum_list (map (\<lambda>j. snd (treePredict (trees d ! j) (intensities s) ! i)) [0..<k]))"
    using Suc.IH Suc.prems by simp
  ultimately show ?case by (simp add: vsub_def vscale_def algebra_simps)
qed

lemma boostingResidual_nth:
  assumes "length (meanResidual d) = length (residual s)"
    and "\<forall>j<k. length (treePredict (trees d ! j) (intensities s)) = length (residual s)"
    and "i < length (residual s)"
  shows "boostingResidual treePredict d k s ! i =
         (fst (residual s ! i) - fst (meanResidual d ! i) -
            learningRate d * sum_list (map (\<lambda>j. fst (treePredict (trees d ! j) (intensities s) ! i)) [0..<k]),
          snd (residual s ! i) - snd (meanResidual d ! i) -
            learningRate d * sum_list (map (\<lambda>j. snd (treePredict (trees d ! j) (intensities s) ! i)) [0..<k]))"
proof -
  let ?ps = "map (\<lambda>j. treePredict (trees d ! j) (intensities s)) [0..<k]"
  have all: "\<forall>r\<in>set ?ps. length r = length (residual s)" using assms(2) by auto
  have lS: "length (residualSum (length (residual s)) ?ps) = length (residual s)"
    using all by (rule length_residualSum)
  have S: "residualSum (length (residual s)) ?ps ! i =
           (sum_list (map (\<lambda>r. fst (r ! i)) ?ps), sum_list (map (\<lambda>r. snd (r ! i)) ?ps))"
    using all assms(3) by (rule residualSum_nth)
  have "boostingResidual treePredict d k s ! i =
        vsub (vsub (residual s ! i) (meanResidual d ! i))
             (vscale (learningRate d) (residualSum (length (residual s)) ?ps ! i))"
    using assms(1,3) lS by (simp add: boostingResidual_def residualSub_def matScale_def)
  then show ?thesis using S by (simp add: vsub_def vscale_def comp_def)
qed

lemma length_boostingResidual:
  assumes "length (meanResidual d) = length (residual s)"
    and "\<forall>j<k. length (treePredict (trees d ! j) (intensities s)) = length (residual s)"
  shows "length (boostingResidual treePredict d k s) = length (residual s)"
proof -
  let ?ps = "map (\<lambda>j. treePredict (trees d ! j) (intensities s)) [0..<k]"
  have "\<forall>r\<in>set ?ps. length r = length (residual s)" using assms(2) by auto
  then have "length (residualSum (length (residual s)) ?ps) = length (residual s)"
    by (rule length_residualSum)
  then show ?thesis using assms(1) by (simp add: boostingResidual_def residualSub_def matScale_def)
qed

lemma sequential_eq_boosting:
  assumes "length (meanResidual d) = length (residual s)"
    and "\<forall>j<k. length (treePredict (trees d ! j) (intensities s)) = length (residual s)"
  shows "sequentialResidual treePredict d k s = boostingResidual treePredict d k s"
proof (rule nth_equalityI)
  show "length (sequentialResidual treePredict d k s) = length (boostingResidual treePredict d k s)"
    using assms by (simp add: length_sequentialResidual length_boostingResidual)
next
  fix i assume "i < length (sequentialResidual treePredict d k s)"
  then have "i < length (residual s)" using assms by (simp add: length_sequentialResidual)
  then show "sequentialResidual treePredict d k s ! i = boostingResidual treePredict d k s ! i"
    using assms by (simp add: sequentialResidual_nth boostingResidual_nth)
qed

lemma sequentialResidual_cong:
  assumes "meanResidual d' = meanResidual d" and "learningRate d' = learningRate d"
    and "\<forall>j<k. trees d' ! j = trees d ! j"
  shows "sequentialResidual treePredict d' k s = sequentialResidual treePredict d k s"
  using assms by (induction k) simp_all

lemma boostLoop_single:
  assumes "boostLoop treePredict treeFit [k] (d, tt) = Inr (d', tt')"
  shows "\<exists>ss. subtractStep treePredict d k (samples tt) = Inr ss \<and>
           d' = d\<lparr>trees := (trees d)[k := fst (treeFit (trees d ! k) (tt\<lparr>samples := ss\<rparr>))]\<rparr> \<and>
           samples tt' = fst (snd (treeFit (trees d ! k) (tt\<lparr>samples := ss\<rparr>)))"
proof (cases "subtractStep treePredict d k (samples tt)")
  case (Inl e)
  with assms show ?thesis by (simp add: bindE_def)
next
  case (Inr ss)
  obtain tree ss' g' where f: "treeFit (trees d ! k) (tt\<lparr>samples := ss\<rparr>) = (tree, ss', g')"
    by (cases "treeFit (trees d ! k) (tt\<lparr>samples := ss\<rparr>)") auto
  from assms Inr f have "d' = d\<lparr>trees := (trees d)[k := tree]\<rparr>" "samples tt' = ss'"
    by (auto simp: bindE_def)
  then show ?thesis using Inr f by simp
qed

lemma boost_invariant:
  assumes keep: "keepsSamples treeFit"
    and run: "boostLoop treePredict treeFit [0..<k] (d0, tt0) = Inr (dk, ttk)"
    and sub: "subtractStep treePredict dk k (samples ttk) = Inr ss"
    and k: "k \<le> length (trees d0)"
  shows "mset ss =
           image_mset (\<lambda>s. s\<lparr>residual := sequentialResidual treePredict dk k s\<rparr>) (mset (samples tt0)) \<and>
         meanResidual dk = meanResidual d0 \<and> learningRate dk = learningRate d0 \<and>
         length (trees dk) = length (trees d0) \<and>
         (\<forall>s\<in>set (samples tt0). length (meanResidual dk) = length (residual s) \<and>
            (\<forall>j<k. length (treePredict (trees dk ! j) (intensities s)) = length (residual s)))"
  using run sub k
proof (induction k arbitrary: dk ttk ss)
  case 0
  then have e: "dk = d0" "ttk = tt0" by simp_all
  from 0(2) have ss: "ss = map (\<lambda>s. s\<lparr>residual := stepResidual treePredict d0 0 s\<rparr>) (samples tt0)"
    unfolding e by (rule subtractStep_Inr)
  have len: "\<forall>s\<in>set (samples tt0). length (meanResidual d0) = length (residual s)"
  proof
    fix s assume "s \<in> set (samples tt0)"
    then obtain s' where "updateResidual treePredict d0 0 s = Inr s'"
      using 0(2) mapE_Inr_all [of "updateResidual treePredict d0 0" "samples tt0" ss s]
      unfolding e subtractStep_def by blast
    from updateResidual_length(1) [OF this] show "length (meanResidual d0) = length (residual s)" by simp
  qed
  show ?case using ss len e by (simp add: stepResidual_def)
next
  case (Suc k)
  have up: "[0..<Suc k] = [0..<k] @ [k]" by simp
  from Suc.prems(1) obtain dm ttm where
    pre: "boostLoop treePredict treeFit [0..<k] (d0, tt0) = Inr (dm, ttm)"
    and one: "boostLoop treePredict treeFit [k] (dm, ttm) = Inr (dk, ttk)"
    unfolding up boostLoop_append by (auto simp: bindE_Inr_iff)
  from boostLoop_single [OF one] obtain bm where
    bm: "subtractStep treePredict dm k (samples ttm) = Inr bm"
    and dk: "dk = dm\<lparr>trees := (trees dm)[k := fst (treeFit (trees dm ! k) (ttm\<lparr>samples := bm\<rparr>))]\<rparr>"
    and sk: "samples ttk = fst (snd (treeFit (trees dm ! k) (ttm\<lparr>samples := bm\<rparr>)))"
    by blast
  from Suc.prems(3) have kl: "k \<le> length (trees d0)" by simp
  note ih = Suc.IH [OF pre bm kl]
  have
    ih1: "mset bm = image_mset (\<lambda>s. s\<lparr>residual := sequentialResidual treePredict dm k s\<rparr>) (mset (samples tt0))"
    and ih2: "meanResidual dm = meanResidual d0" "learningRate dm = learningRate d0"
      "length (trees dm) = length (trees d0)"
    and ih3: "\<forall>s\<in>set (samples tt0). length (meanResidual dm) = length (residual s) \<and>
            (\<forall>j<k. length (treePredict (trees dm ! j) (intensities s)) = length (residual s))"
    using ih by blast+
  have msk: "mset (samples ttk) = mset bm"
    using keep sk unfolding keepsSamples_def by simp
  have f1: "meanResidual dk = meanResidual d0" "learningRate dk = learningRate d0"
    "length (trees dk) = length (trees d0)"
    using dk ih2 by simp_all
  have same: "\<forall>j<k. trees dk ! j = trees dm ! j" using dk by simp
  have seq: "\<And>s. sequentialResidual treePredict dk k s = sequentialResidual treePredict dm k s"
    using same dk by (intro sequentialResidual_cong) simp_all
  from Suc.prems(2) have ss: "ss = map (\<lambda>s. s\<lparr>residual := stepResidual treePredict dk (Suc k) s\<rparr>) (samples ttk)"
    by (rule subtractStep_Inr)
  have "mset ss = image_mset (\<lambda>s. s\<lparr>residual := stepResidual treePredict dk (Suc k) s\<rparr>) (mset (samples ttk))"
    using ss by simp
  also have "\<dots> = image_mset (\<lambda>s. s\<lparr>residual := stepResidual treePredict dk (Suc k) s\<rparr>)
        (image_mset (\<lambda>s. s\<lparr>residual := sequentialResidual treePredict dm k s\<rparr>) (mset (samples tt0)))"
    using msk ih1 by simp
  also have "\<dots> = image_mset (\<lambda>s. s\<lparr>residual := sequentialResidual treePredict dk (Suc k) s\<rparr>) (mset (samples tt0))"
    by (simp add: image_mset.compositionality comp_def stepResidual_def seq)
  finally have goal1: "mset ss =
      image_mset (\<lambda>s. s\<lparr>residual := sequentialResidual treePredict dk (Suc k) s\<rparr>) (mset (samples tt0))" .
  have len: "\<forall>s\<in>set (samples tt0). length (meanResidual dk) = length (residual s) \<and>
            (\<forall>j<Suc k. length (treePredict (trees dk ! j) (intensities s)) = length (residual s))"
  proof
    fix s assume s: "s \<in> set (samples tt0)"
    from ih3 s have lm: "length (meanResidual dm) = length (residual s)"
      and lj: "\<forall>j<k. length (treePredict (trees dm ! j) (intensities s)) = length (residual s)" by simp_all
    let ?s' = "s\<lparr>residual := sequentialResidual treePredict dm k s\<rparr>"
    have "?s' \<in># mset bm" using ih1 s by simp
    then have "?s' \<in> set (samples ttk)" using msk by (metis set_mset_mset)
    then obtain u where "updateResidual treePredict dk (Suc k) ?s' = Inr u"
      using Suc.prems(2) mapE_Inr_all [of "updateResidual treePredict dk (Suc k)" "samples ttk" ss ?s']
      unfolding subtractStep_def by blast
    from updateResidual_length(2) [OF this]
    have "length (treePredict (trees dk ! k) (intensities s)) = length (sequentialResidual treePredict dm k s)"
      by simp
    also have "\<dots> = length (residual s)" using lm lj by (rule length_sequentialResidual)
    finally have lk: "length (treePredict (trees dk ! k) (intensities s)) = length (residual s)" .
    have "\<forall>j<Suc k. length (treePredict (trees dk ! j) (intensities s)) = length (residual s)"
    proof (intro allI impI)
      fix j assume "j < Suc k"
      then show "length (treePredict (trees dk ! j) (intensities s)) = length (residual s)"
        using lk lj same by (cases "j = k") auto
    qed
    then show "length (meanResidual dk) = length (residual s) \<and>
            (\<forall>j<Suc k. length (treePredict (trees dk ! j) (intensities s)) = length (residual s))"
      using lm f1 ih2 by simp
  qed
  show ?case using goal1 f1 len by simp
qed

lemma targetLoop_residual:
  assumes "targetLoop fl jacobiSvd readImage d t rs mr = Inr (mrF, ts)"
  shows "map residual ts =
         map (\<lambda>r. residualSub (shapes (RegressorTraining.trainingData t) ! idx r) (estimate r)) rs"
  using assms
proof (induction rs arbitrary: mr mrF ts)
  case Nil
  then show ?case by simp
next
  case (Cons r rs)
  let ?td = "RegressorTraining.trainingData t"
  from Cons.prems obtain res mr' tf ints mrG rest where
    res: "matSub (shapes ?td ! idx r) (estimate r) = Inr res"
    and rec: "targetLoop fl jacobiSvd readImage d t rs mr' = Inr (mrG, rest)"
    and ts: "ts = \<lparr>residual = res, intensities = ints\<rparr> # rest"
    by (auto simp: Let_def bindE_Inr_iff split: if_splits)
  have "res = residualSub (shapes ?td ! idx r) (estimate r)"
    using res by (auto simp: matSub_def residualSub_def split: if_splits)
  then show ?case using Cons.IH [OF rec] ts by simp
qed

lemma boostLoop_trees_outside:
  assumes "boostLoop treePredict treeFit ks (d, tt) = Inr (d', tt')" and "j \<notin> set ks"
  shows "trees d' ! j = trees d ! j"
  using assms
proof (induction ks arbitrary: d tt)
  case Nil
  then show ?case by simp
next
  case (Cons k ks)
  have "boostLoop treePredict treeFit ([k] @ ks) (d, tt) = Inr (d', tt')" using Cons.prems(1) by simp
  then obtain dm ttm where one: "boostLoop treePredict treeFit [k] (d, tt) = Inr (dm, ttm)"
    and rest: "boostLoop treePredict treeFit ks (dm, ttm) = Inr (d', tt')"
    unfolding boostLoop_append by (auto simp: bindE_Inr_iff)
  from boostLoop_single [OF one] have "trees dm ! j = trees d ! j" using Cons.prems(2) by auto
  moreover have "trees d' ! j = trees dm ! j" using Cons.IH [OF rest] Cons.prems(2) by simp
  ultimately show ?case by simp
qed

lemmas example_defs2 = example_defs exampleStage_def exampleTreeTraining_def exampleStage1_def
  exampleTreeTraining1_def exampleSamples1_def

lemma keepsSamples_example: "keepsSamples exampleTreeFit"
  by (simp add: keepsSamples_def exampleTreeFit_def)


lemma boostLoop_fields:
  assumes "boostLoop treePredict treeFit ks (d, tt) = Inr (d', tt')"
  shows "meanResidual d' = meanResidual d \<and> learningRate d' = learningRate d \<and>
         length (trees d') = length (trees d)"
  using assms
proof (induction ks arbitrary: d tt)
  case Nil
  then show ?case by simp
next
  case (Cons k ks)
  have "boostLoop treePredict treeFit ([k] @ ks) (d, tt) = Inr (d', tt')" using Cons.prems by simp
  then obtain dm ttm where one: "boostLoop treePredict treeFit [k] (d, tt) = Inr (dm, ttm)"
    and rest: "boostLoop treePredict treeFit ks (dm, ttm) = Inr (d', tt')"
    unfolding boostLoop_append by (auto simp: bindE_Inr_iff)
  from boostLoop_single [OF one] have "meanResidual dm = meanResidual d \<and>
      learningRate dm = learningRate d \<and> length (trees dm) = length (trees d)" by auto
  then show ?case using Cons.IH [OF rest] by simp
qed

lemma boostingResidual_cong:
  assumes "meanResidual d' = meanResidual d" and "learningRate d' = learningRate d"
    and "\<forall>j<k. trees d' ! j = trees d ! j"
  shows "boostingResidual treePredict d' k s = boostingResidual treePredict d k s"
proof -
  have eq: "map (\<lambda>j. treePredict (trees d' ! j) (intensities s)) [0..<k] =
        map (\<lambda>j. treePredict (trees d ! j) (intensities s)) [0..<k]"
    using assms(3) by simp
  show ?thesis by (simp only: boostingResidual_def assms(1) assms(2) eq)
qed

lemma fitStart_residual:
  fixes d :: "'tree RegressorData"
  assumes "fitStart fl canonical jacobiSvd readImage emptyTree d t = Inr (d3, tt0)"
  shows "map residual (samples tt0) =
           map (\<lambda>r. residualSub (shapes (RegressorTraining.trainingData t) ! idx r) (estimate r))
             (RegressorTraining.samples t) \<and>
         length (trees d3) = nat (numTrees (params (RegressorTraining.trainingData t)))"
proof -
  from assms obtain d2 :: "'tree RegressorData" and zero acc where
    tl: "targetLoop fl jacobiSvd readImage d2 t (RegressorTraining.samples t) zero = Inr (acc, samples tt0)"
    and tr: "trees d3 = resize (nat (numTrees (params (RegressorTraining.trainingData t)))) emptyTree (trees d)"
    by (auto simp: fitStart_def Let_def bindE_Inr_iff split: if_splits)
  have "length (trees d3) = nat (numTrees (params (RegressorTraining.trainingData t)))"
    using tr by (simp add: resize_def)
  then show ?thesis using targetLoop_residual [OF tl] by simp
qed

lemma fitStart_example:
  "fitStart round32 exampleCanonical exampleSvd exampleReadImage [] exampleRegressor exampleTraining =
     Inr (exampleStage, exampleTreeTraining)"
  by (simp add: example_defs2 eval_defs numeral_2_eq_2)

lemma boostLoop_example:
  "boostLoop exampleTreePredict exampleTreeFit [0..<1] (exampleStage, exampleTreeTraining) =
     Inr (exampleStage1, exampleTreeTraining1)"
  by (simp add: example_defs2 eval_defs)

lemma subtractStep_example:
  "subtractStep exampleTreePredict exampleStage1 1 (samples exampleTreeTraining1) = Inr exampleSamples1"
  by (simp add: example_defs2 eval_defs)

text \<open>
  Claim C4. Let \<^verbatim>\<open>fit\<close> return the regressor \<open>d'\<close>, and let \<open>k\<close> be one of its
  \<^verbatim>\<open>numTrees\<close> passes. The lines before the boosting loop (\<open>fitStart\<close>) leave samples
  whose residuals are ground truth minus estimate. The passes \<open>0, \<dots>, k - 1\<close> of the loop
  and the inner loop of pass \<open>k\<close> then lead to the samples \<open>ss\<close>; tree \<open>k\<close> of the
  returned regressor is the one \<^verbatim>\<open>Tree::fit\<close> builds from them. These samples are the
  initial ones (in some order, \<^verbatim>\<open>Tree::fit\<close> being free to reorder them), each with its
  initial residual minus the mean residual minus the learning rate times the sum of the
  predictions of the trees \<open>0, \<dots>, k - 1\<close> of the returned regressor on its cached
  intensities. The mean residual and the learning rate are those set before the loop.
\<close>

theorem fit_tree_residual:
  assumes keep: "keepsSamples treeFit"
    and fit: "fit fl canonical jacobiSvd readImage treePredict treeFit emptyTree d t = Inr (d', g', b)"
    and k: "k < nat (numTrees (params (RegressorTraining.trainingData t)))"
  shows "\<exists>d3 tt0 dk ttk ss.
           fitStart fl canonical jacobiSvd readImage emptyTree d t = Inr (d3, tt0) \<and>
           map residual (samples tt0) =
             map (\<lambda>r. residualSub (shapes (RegressorTraining.trainingData t) ! idx r) (estimate r))
               (RegressorTraining.samples t) \<and>
           boostLoop treePredict treeFit [0..<k] (d3, tt0) = Inr (dk, ttk) \<and>
           subtractStep treePredict dk k (samples ttk) = Inr ss \<and>
           trees d' ! k = fst (treeFit (trees dk ! k) (ttk\<lparr>samples := ss\<rparr>)) \<and>
           mset ss =
             image_mset (\<lambda>s. s\<lparr>residual := boostingResidual treePredict d' k s\<rparr>) (mset (samples tt0)) \<and>
           meanResidual d' = meanResidual d3 \<and> learningRate d' = learningRate d3"
proof -
  let ?K = "nat (numTrees (params (RegressorTraining.trainingData t)))"
  from fit obtain d3 tt0 tt4 where
    st: "fitStart fl canonical jacobiSvd readImage emptyTree d t = Inr (d3, tt0)"
    and lp: "boostLoop treePredict treeFit [0..<?K] (d3, tt0) = Inr (d', tt4)"
    by (auto simp: fit_def bindE_Inr_iff)
  from fitStart_residual [OF st] have res: "map residual (samples tt0) =
             map (\<lambda>r. residualSub (shapes (RegressorTraining.trainingData t) ! idx r) (estimate r))
               (RegressorTraining.samples t)"
    and len3: "length (trees d3) = ?K" by simp_all
  have "[0..<k + (?K - k)] = [0..<k] @ [k..<k + (?K - k)]" by (rule upt_add_eq_append) simp
  moreover have "k + (?K - k) = ?K" using k by simp
  ultimately have s1: "[0..<?K] = [0..<k] @ [k..<?K]" by simp
  have s2: "[k..<?K] = [k] @ [Suc k..<?K]" using k by (simp add: upt_conv_Cons)
  have split: "[0..<?K] = [0..<k] @ ([k] @ [Suc k..<?K])" using s1 s2 by simp
  have "bindE (boostLoop treePredict treeFit [0..<k] (d3, tt0))
          (boostLoop treePredict treeFit ([k] @ [Suc k..<?K])) = Inr (d', tt4)"
    using lp boostLoop_append [of treePredict treeFit "[0..<k]" "[k] @ [Suc k..<?K]" "(d3, tt0)"]
    by (simp only: split [symmetric])
  then obtain dk ttk where
    pre: "boostLoop treePredict treeFit [0..<k] (d3, tt0) = Inr (dk, ttk)"
    and post: "boostLoop treePredict treeFit ([k] @ [Suc k..<?K]) (dk, ttk) = Inr (d', tt4)"
    by (cases "boostLoop treePredict treeFit [0..<k] (d3, tt0)") (auto simp: bindE_def)
  have "bindE (boostLoop treePredict treeFit [k] (dk, ttk))
          (boostLoop treePredict treeFit [Suc k..<?K]) = Inr (d', tt4)"
    using post boostLoop_append [of treePredict treeFit "[k]" "[Suc k..<?K]" "(dk, ttk)"]
    by simp
  then obtain dn ttn where
    one: "boostLoop treePredict treeFit [k] (dk, ttk) = Inr (dn, ttn)"
    and rest: "boostLoop treePredict treeFit [Suc k..<?K] (dn, ttn) = Inr (d', tt4)"
    by (cases "boostLoop treePredict treeFit [k] (dk, ttk)") (auto simp: bindE_def)
  from boostLoop_single [OF one] obtain ss where
    sub: "subtractStep treePredict dk k (samples ttk) = Inr ss"
    and dn: "dn = dk\<lparr>trees := (trees dk)[k := fst (treeFit (trees dk ! k) (ttk\<lparr>samples := ss\<rparr>))]\<rparr>"
    by blast
  have kl: "k \<le> length (trees d3)" using k len3 by simp
  note inv = boost_invariant [OF keep pre sub kl]
  have m: "mset ss =
      image_mset (\<lambda>s. s\<lparr>residual := sequentialResidual treePredict dk k s\<rparr>) (mset (samples tt0))"
    and fk: "meanResidual dk = meanResidual d3" "learningRate dk = learningRate d3"
      "length (trees dk) = length (trees d3)"
    and len: "\<forall>s\<in>set (samples tt0). length (meanResidual dk) = length (residual s) \<and>
            (\<forall>j<k. length (treePredict (trees dk ! j) (intensities s)) = length (residual s))"
    using inv by blast+
  from boostLoop_fields [OF rest] have fn: "meanResidual d' = meanResidual dn"
    "learningRate d' = learningRate dn" by simp_all
  have fd: "meanResidual d' = meanResidual dk" "learningRate d' = learningRate dk"
    using fn dn by simp_all
  have outside: "\<And>j. j \<le> k \<Longrightarrow> trees d' ! j = trees dn ! j"
    using boostLoop_trees_outside [OF rest] by simp
  have tk: "trees d' ! k = fst (treeFit (trees dk ! k) (ttk\<lparr>samples := ss\<rparr>))"
    using outside [of k] dn fk(3) len3 k by simp
  have same: "\<forall>j<k. trees d' ! j = trees dk ! j"
    using outside dn by simp
  have cong: "\<And>s. boostingResidual treePredict d' k s = boostingResidual treePredict dk k s"
    using fd same by (intro boostingResidual_cong) simp_all
  have "image_mset (\<lambda>s. s\<lparr>residual := sequentialResidual treePredict dk k s\<rparr>) (mset (samples tt0)) =
        image_mset (\<lambda>s. s\<lparr>residual := boostingResidual treePredict d' k s\<rparr>) (mset (samples tt0))"
  proof (rule image_mset_cong)
    fix s assume "s \<in># mset (samples tt0)"
    then have "s \<in> set (samples tt0)" by simp
    with len have "length (meanResidual dk) = length (residual s)"
      "\<forall>j<k. length (treePredict (trees dk ! j) (intensities s)) = length (residual s)" by blast+
    then have "sequentialResidual treePredict dk k s = boostingResidual treePredict dk k s"
      by (rule sequential_eq_boosting)
    then show "s\<lparr>residual := sequentialResidual treePredict dk k s\<rparr> =
          s\<lparr>residual := boostingResidual treePredict d' k s\<rparr>" by (simp add: cong)
  qed
  with m have ms: "mset ss =
      image_mset (\<lambda>s. s\<lparr>residual := boostingResidual treePredict d' k s\<rparr>) (mset (samples tt0))" by simp
  have "meanResidual d' = meanResidual d3" "learningRate d' = learningRate d3"
    using fd fk by simp_all
  then show ?thesis using st res pre sub tk ms by blast
qed

theorem fit_tree_residual_witness:
  "keepsSamples exampleTreeFit \<and>
   fit round32 exampleCanonical exampleSvd exampleReadImage exampleTreePredict exampleTreeFit []
     exampleRegressor exampleTraining = Inr (exampleTrained, 4, False) \<and>
   fitStart round32 exampleCanonical exampleSvd exampleReadImage [] exampleRegressor exampleTraining =
     Inr (exampleStage, exampleTreeTraining) \<and>
   boostLoop exampleTreePredict exampleTreeFit [0..<1] (exampleStage, exampleTreeTraining) =
     Inr (exampleStage1, exampleTreeTraining1) \<and>
   subtractStep exampleTreePredict exampleStage1 1 (samples exampleTreeTraining1) = Inr exampleSamples1 \<and>
   trees exampleTrained ! 1 =
     fst (exampleTreeFit (trees exampleStage1 ! 1) (exampleTreeTraining1\<lparr>samples := exampleSamples1\<rparr>)) \<and>
   mset exampleSamples1 =
     image_mset (\<lambda>s. s\<lparr>residual := boostingResidual exampleTreePredict exampleTrained 1 s\<rparr>)
       (mset (samples exampleTreeTraining))"
proof -
  have k: "1 < nat (numTrees (params (RegressorTraining.trainingData exampleTraining)))"
    by (simp add: example_defs)
  from fit_tree_residual [OF keepsSamples_example fit_example k]
  obtain d3 tt0 dk ttk ss where
    a: "fitStart round32 exampleCanonical exampleSvd exampleReadImage [] exampleRegressor exampleTraining =
          Inr (d3, tt0)"
    and b: "boostLoop exampleTreePredict exampleTreeFit [0..<1] (d3, tt0) = Inr (dk, ttk)"
    and c: "subtractStep exampleTreePredict dk 1 (samples ttk) = Inr ss"
    and t: "trees exampleTrained ! 1 = fst (exampleTreeFit (trees dk ! 1) (ttk\<lparr>samples := ss\<rparr>))"
    and m: "mset ss =
        image_mset (\<lambda>s. s\<lparr>residual := boostingResidual exampleTreePredict exampleTrained 1 s\<rparr>)
          (mset (samples tt0))"
    by blast
  from a fitStart_example have e1: "d3 = exampleStage" "tt0 = exampleTreeTraining" by simp_all
  from b boostLoop_example have e2: "dk = exampleStage1" "ttk = exampleTreeTraining1"
    unfolding e1 by simp_all
  from c subtractStep_example have e3: "ss = exampleSamples1" unfolding e2 by simp
  show ?thesis
    using keepsSamples_example fit_example fitStart_example boostLoop_example subtractStep_example
      t m unfolding e1 e2 e3 by blast
qed

subsection \<open>Regressor::fit on an empty sample set\<close>

lemma boostLoop_empty:
  assumes "keepsSamples treeFit" and "samples tt = []"
  shows "\<exists>d' tt'. boostLoop treePredict treeFit ks (d, tt) = Inr (d', tt') \<and>
           meanResidual d' = meanResidual d \<and> learningRate d' = learningRate d \<and>
           meanShape d' = meanShape d \<and> shapeRelativePixelCoords d' = shapeRelativePixelCoords d \<and>
           closestShapeLandmark d' = closestShapeLandmark d \<and> length (trees d') = length (trees d)"
  using assms(2)
proof (induction ks arbitrary: d tt)
  case Nil
  then show ?case by simp
next
  case (Cons k ks)
  have s0: "subtractStep treePredict d k (samples tt) = Inr []"
    using Cons.prems by (simp add: subtractStep_def)
  obtain tree ss' g' where f: "treeFit (trees d ! k) (tt\<lparr>samples := []\<rparr>) = (tree, ss', g')"
    by (cases "treeFit (trees d ! k) (tt\<lparr>samples := []\<rparr>)") auto
  have "mset ss' = mset (samples (tt\<lparr>samples := []\<rparr>))"
    using assms(1) f unfolding keepsSamples_def by (metis fst_conv snd_conv)
  then have e: "ss' = []" by simp
  let ?d = "d\<lparr>trees := (trees d)[k := tree]\<rparr>"
  let ?tt = "tt\<lparr>samples := ss', trainingData := (trainingData tt)\<lparr>rnd := g'\<rparr>\<rparr>"
  have "samples ?tt = []" using e by simp
  from Cons.IH [OF this, of ?d] obtain d' tt' where
    r: "boostLoop treePredict treeFit ks (?d, ?tt) = Inr (d', tt')"
    and p: "meanResidual d' = meanResidual ?d" "learningRate d' = learningRate ?d"
      "meanShape d' = meanShape ?d" "shapeRelativePixelCoords d' = shapeRelativePixelCoords ?d"
      "closestShapeLandmark d' = closestShapeLandmark ?d" "length (trees d') = length (trees ?d)"
    by blast
  have "boostLoop treePredict treeFit (k # ks) (d, tt) = Inr (d', tt')"
    using s0 f r by (simp add: bindE_def)
  then show ?case using p by simp
qed

text \<open>
  Claim C2, as the code has it. \<^verbatim>\<open>fit\<close> holds no test of the sample count. With an
  empty sample set, when the pixel coordinates are drawn and encoded, \<^verbatim>\<open>fit\<close> returns
  (the value false) with the regressor overwritten: the learning rate and the mean shape
  are those of the training structure, the trees are resized to \<^verbatim>\<open>numTrees\<close>, and the
  coordinates and anchors are the new ones.
\<close>

theorem fit_empty_samples:
  assumes keep: "keepsSamples treeFit"
    and empty: "RegressorTraining.samples t = []"
    and nt: "0 \<le> numTrees (params (RegressorTraining.trainingData t))"
    and sc: "sampleCoordinates canonical t = Inr (coords, g1)"
    and rc: "shapeRelativePixelCoordinates fl (RegressorTraining.meanShape t) coords = Inr (rel, cl)"
    and nl: "0 \<le> RegressorTraining.numLandmarks t"
  shows "\<exists>d' g'. fit fl canonical jacobiSvd readImage treePredict treeFit emptyTree d t = Inr (d', g', False) \<and>
           learningRate d' = TrainingParameters.learningRate (params (RegressorTraining.trainingData t)) \<and>
           meanShape d' = RegressorTraining.meanShape t \<and>
           length (trees d') = nat (numTrees (params (RegressorTraining.trainingData t))) \<and>
           shapeRelativePixelCoords d' = rel \<and> closestShapeLandmark d' = cl"
proof -
  let ?td = "RegressorTraining.trainingData t"
  let ?p = "params ?td"
  let ?zero = "replicate (nat (RegressorTraining.numLandmarks t)) (0, 0) :: ShapeResidual"
  let ?d3 = "d\<lparr>learningRate := TrainingParameters.learningRate ?p,
                trees := resize (nat (numTrees ?p)) emptyTree (trees d),
                meanShape := RegressorTraining.meanShape t,
                shapeRelativePixelCoords := rel, closestShapeLandmark := cl,
                meanResidual := matDiv ?zero 0\<rparr>"
  let ?tt = "\<lparr>numLandmarks = RegressorTraining.numLandmarks t, trainingData = ?td\<lparr>rnd := g1\<rparr>,
              samples = [], pixelCoordinates = coords\<rparr>"
  have "samples ?tt = []" by simp
  from boostLoop_empty [OF keep this, of treePredict "[0..<nat (numTrees ?p)]" ?d3]
  obtain d' tt' where
    r: "boostLoop treePredict treeFit [0..<nat (numTrees ?p)] (?d3, ?tt) = Inr (d', tt')"
    and q: "learningRate d' = learningRate ?d3"
      "meanShape d' = meanShape ?d3" "shapeRelativePixelCoords d' = shapeRelativePixelCoords ?d3"
      "closestShapeLandmark d' = closestShapeLandmark ?d3" "length (trees d') = length (trees ?d3)"
    by blast
  have z: "matZero (RegressorTraining.numLandmarks t) = Inr ?zero" using nl by (simp add: matZero_def)
  have st: "fitStart fl canonical jacobiSvd readImage emptyTree d t = Inr (?d3, ?tt)"
    using nt sc rc z empty by (simp add: fitStart_def bindE_def Let_def)
  have "fit fl canonical jacobiSvd readImage treePredict treeFit emptyTree d t =
        Inr (d', rnd (trainingData tt'), False)"
    using st r by (simp add: fit_def bindE_def)
  moreover have "length (trees ?d3) = nat (numTrees ?p)" by (simp add: resize_def)
  ultimately show ?thesis using q by simp
qed

lemma example_empty_coordinates:
  "sampleCoordinates exampleCanonical exampleEmptyTraining = Inr ([(1 / 2, 3 / 2)], 2)"
  by (simp add: example_defs eval_defs)

theorem fit_empty_samples_witness:
  "keepsSamples exampleTreeFit \<and>
   RegressorTraining.samples exampleEmptyTraining = [] \<and>
   sampleCoordinates exampleCanonical exampleEmptyTraining = Inr ([(1 / 2, 3 / 2)], 2) \<and>
   shapeRelativePixelCoordinates round32 (RegressorTraining.meanShape exampleEmptyTraining) [(1 / 2, 3 / 2)] =
     Inr ([(- (1 / 2), 1 / 2)], [1]) \<and>
   (\<exists>d' g'. fit round32 exampleCanonical exampleSvd exampleReadImage exampleTreePredict exampleTreeFit []
        exampleRegressor exampleEmptyTraining = Inr (d', g', False) \<and>
      learningRate d' = 1 / 2 \<and> meanShape d' = [(0, 0), (1, 1)] \<and> length (trees d') = 2 \<and>
      shapeRelativePixelCoords d' = [(- (1 / 2), 1 / 2)] \<and> closestShapeLandmark d' = [1])"
proof -
  have h2: "RegressorTraining.samples exampleEmptyTraining = []" by (simp add: example_defs)
  have h3: "0 \<le> numTrees (params (RegressorTraining.trainingData exampleEmptyTraining))"
    by (simp add: example_defs)
  note h4 = example_empty_coordinates
  have h5: "shapeRelativePixelCoordinates round32 (RegressorTraining.meanShape exampleEmptyTraining) [(1 / 2, 3 / 2)] =
     Inr ([(- (1 / 2), 1 / 2)], [1])"
    by (simp add: example_defs example_relative)
  have h6: "0 \<le> RegressorTraining.numLandmarks exampleEmptyTraining" by (simp add: example_defs)
  from fit_empty_samples [where treePredict = exampleTreePredict and jacobiSvd = exampleSvd
      and readImage = exampleReadImage and emptyTree = "[]" and d = exampleRegressor
      and fl = round32, OF keepsSamples_example h2 h3 h4 h5 h6]
  obtain d' g' where "fit round32 exampleCanonical exampleSvd exampleReadImage exampleTreePredict exampleTreeFit []
        exampleRegressor exampleEmptyTraining = Inr (d', g', False)"
    "learningRate d' = 1 / 2" "meanShape d' = [(0, 0), (1, 1)]" "length (trees d') = 2"
    "shapeRelativePixelCoords d' = [(- (1 / 2), 1 / 2)]" "closestShapeLandmark d' = [1]"
    by (auto simp: example_defs numeral_2_eq_2)
  then show ?thesis using keepsSamples_example h2 h4 h5 by blast
qed

text \<open>
  Claim C2 as stated fails: on the empty sample set of the small training run \<^verbatim>\<open>fit\<close>
  is not rejected and leaves a regressor whose learning rate, trees and mean shape differ
  from those of the regressor it was called on.
\<close>

theorem fit_empty_samples_counterexample:
  "RegressorTraining.samples exampleEmptyTraining = [] \<and>
   \<not> isl (fit round32 exampleCanonical exampleSvd exampleReadImage exampleTreePredict exampleTreeFit []
            exampleRegressor exampleEmptyTraining) \<and>
   learningRate (fst (projr (fit round32 exampleCanonical exampleSvd exampleReadImage exampleTreePredict
            exampleTreeFit [] exampleRegressor exampleEmptyTraining))) = 1 / 2 \<and>
   learningRate exampleRegressor = 0 \<and>
   trees (fst (projr (fit round32 exampleCanonical exampleSvd exampleReadImage exampleTreePredict
            exampleTreeFit [] exampleRegressor exampleEmptyTraining))) = [[], []] \<and>
   trees exampleRegressor = [] \<and>
   meanShape (fst (projr (fit round32 exampleCanonical exampleSvd exampleReadImage exampleTreePredict
            exampleTreeFit [] exampleRegressor exampleEmptyTraining))) = [(0, 0), (1, 1)] \<and>
   meanShape exampleRegressor = []"
  by (simp add: example_defs eval_defs upt_rec numeral_2_eq_2)


subsection \<open>estimateSimilarityTransform\<close>

lemma mdet_mmul: "mdet (mmul a b) = mdet a * mdet b"
  by (cases a, cases b) (simp add: algebra_simps)

lemma mdet_mtranspose: "mdet (mtranspose a) = mdet a"
  by (cases a) simp

lemma orthogonal_det: "orthogonal u \<Longrightarrow> mdet u = 1 \<or> mdet u = - 1"
proof -
  assume "orthogonal u"
  then have "mdet (mmul (mtranspose u) u) = mdet mat2Identity" by (simp add: orthogonal_def)
  then have "mdet u * mdet u = 1" by (simp add: mdet_mmul mdet_mtranspose mat2Identity_def)
  then show ?thesis by (simp add: square_eq_1_iff)
qed

lemma validSvd_det:
  assumes "validSvd m (u, sv, v)"
  shows "mdet m = fst sv * snd sv * (mdet u * mdet v)"
proof -
  from assms have "m = mmul (mmul u (fst sv, 0, 0, snd sv)) (mtranspose v)"
    by (simp add: validSvd_def)
  then have "mdet m = mdet u * mdet (fst sv, 0, 0, snd sv) * mdet v"
    by (simp only: mdet_mmul mdet_mtranspose)
  then show ?thesis by simp
qed



lemma orthogonal_shape:
  assumes "orthogonal (a, b, c, d)"
  shows "(d = a \<and> b = - c \<and> mdet (a, b, c, d) = 1) \<or> (d = - a \<and> b = c \<and> mdet (a, b, c, d) = - 1)"
proof -
  from assms have e: "a * a + c * c = 1" "a * b + c * d = 0" "b * b + d * d = 1"
    by (simp_all add: orthogonal_def mat2Identity_def)
  from orthogonal_det [OF assms] show ?thesis
  proof
    assume i: "mdet (a, b, c, d) = 1"
    then have i': "a * d - b * c = 1" by simp
    have "d = a" using e i' by algebra
    moreover have "b = - c" using e i' by algebra
    ultimately show ?thesis using i by simp
  next
    assume i: "mdet (a, b, c, d) = - 1"
    then have i': "a * d - b * c = - 1" by simp
    have "d = - a" using e i' by algebra
    moreover have "b = c" using e i' by algebra
    ultimately show ?thesis using i by simp
  qed
qed


lemma reflection_not_diagonal:
  assumes svd: "validSvd (m00, m01, m10, m11) (u, sv, v)"
    and sym: "m01 = m10" and off: "m01 \<noteq> 0"
    and neg: "mdet (m00, m01, m10, m11) < 0"
    and rot: "rotationPart (m00, m01, m10, m11) (u, sv, v) = (r00, r01, r10, r11)"
  shows "r01 \<noteq> 0 \<or> r10 \<noteq> 0"
proof (rule ccontr)
  assume "\<not> (r01 \<noteq> 0 \<or> r10 \<noteq> 0)"
  then have z: "r01 = 0" "r10 = 0" by simp_all
  obtain a b c d where u: "u = (a, b, c, d)" by (cases u) auto
  obtain p q r s where v: "v = (p, q, r, s)" by (cases v) auto
  obtain s0 s1 where sv: "sv = (s0, s1)" by (cases sv) auto
  from svd have ou: "orthogonal (a, b, c, d)" and ov: "orthogonal (p, q, r, s)"
    and nn: "0 \<le> s1" "s1 \<le> s0"
    and m: "(m00, m01, m10, m11) = mmul (mmul (a, b, c, d) (s0, 0, 0, s1)) (mtranspose (p, q, r, s))"
    by (simp_all add: validSvd_def u v sv)
  have d: "mdet (m00, m01, m10, m11) = s0 * s1 * (mdet (a, b, c, d) * mdet (p, q, r, s))"
    using validSvd_det [OF svd [unfolded u v sv]] by simp
  have nz: "s0 * s1 \<noteq> 0" using d neg by auto
  have pos: "0 < s0 * s1" using nz nn by (metis less_eq_real_def mult_nonneg_nonneg order_trans)
  have hand: "mdet (a, b, c, d) * mdet (p, q, r, s) < 0"
    using d neg pos by (metis mult_less_0_iff not_less_iff_gr_or_eq)
  have m01: "m01 = a * s0 * r + b * s1 * s" and m10: "m10 = c * s0 * p + d * s1 * q"
    using m by simp_all
  have cor: "correction (m00, m01, m10, m11) (u, sv, v) =
      (if s1 < s0 then (1, 0, 0, - 1) else (- 1, 0, 0, 1))"
    using neg by (simp add: correction_def Let_def sv)
  from orthogonal_shape [OF ou] orthogonal_shape [OF ov] hand
  consider (rot_refl) "d = a" "b = - c" "s = - p" "q = r"
    | (refl_rot) "d = - a" "b = c" "s = p" "q = - r"
    by (auto simp: mult_less_0_iff)
  then show False
  proof cases
    case rot_refl
    have e: "a * r + c * p = 0"
      using rot z cor unfolding rotationPart_def u v
      by (auto simp: rot_refl split: if_splits)
    have "m01 = s0 * (a * r) + s1 * (c * p)" using m01 rot_refl by (simp add: algebra_simps)
    moreover have "m10 = s0 * (c * p) + s1 * (a * r)" using m10 rot_refl by (simp add: algebra_simps)
    moreover have "c * p = - (a * r)" using e by simp
    ultimately have "m01 = (s0 - s1) * (a * r)" and "m10 = - ((s0 - s1) * (a * r))"
      by (simp_all add: algebra_simps)
    then have "m01 = 0" using sym by linarith
    then show False using off by simp
  next
    case refl_rot
    have e: "a * r + c * p = 0"
      using rot z cor unfolding rotationPart_def u v
      by (auto simp: refl_rot split: if_splits)
    have "m01 = s0 * (a * r) + s1 * (c * p)" using m01 refl_rot by (simp add: algebra_simps)
    moreover have "m10 = s0 * (c * p) + s1 * (a * r)" using m10 refl_rot by (simp add: algebra_simps)
    moreover have "c * p = - (a * r)" using e by simp
    ultimately have "m01 = (s0 - s1) * (a * r)" and "m10 = - ((s0 - s1) * (a * r))"
      by (simp_all add: algebra_simps)
    then have "m01 = 0" using sym by linarith
    then show False using off by simp
  qed
qed

lemmas shape_defs = exampleRectangle_def exampleMirrored_def exampleMirrorSvd_def
  exampleCollinear_def exampleCoincident_def exampleCoincidentTarget_def exampleZeroSvd_def





lemma collinear_mean:
  "rowwiseMean round32 exampleCollinear = (5033165 / 33554432, 7549747 / 16777216)"
  by (simp add: rowwiseMean_def shape_defs round32_defs)

lemma collinear_centered:
  "centered round32 exampleCollinear =
     [(- (5033165 / 33554432), - (7549747 / 16777216)), (5033165 / 33554432, 7549747 / 16777216)]"
  by (simp add: centered_def collinear_mean) (simp add: shape_defs round32_defs)

lemma collinear_covariance:
  "covariance round32 exampleCollinear exampleCollinear =
     (3019899 / 134217728, 9059697 / 134217728, 9059697 / 134217728, 1698693 / 8388608)"
  by (simp add: covariance_def collinear_centered) (simp add: shape_defs round32_defs)

lemma collinear_variance:
  "sourceVariance round32 exampleCollinear = 7549747 / 33554432"
  by (simp add: sourceVariance_def collinear_centered) (simp add: shape_defs round32_defs)

lemma collinear_determinant:
  "round32 (round32 (3019899 / 134217728 * (1698693 / 8388608)) -
            round32 (9059697 / 134217728 * (9059697 / 134217728))) = - (1 / 2 ^ 31)"
  by (simp add: round32_defs)

lemma coincident_mean:
  "rowwiseMean round32 exampleCoincident = (14260635 / 8388608, 14260635 / 8388608)"
  "rowwiseMean round32 exampleCoincidentTarget = (1, 1)"
  by (simp_all add: rowwiseMean_def shape_defs round32_defs)

lemma coincident_centered:
  "centered round32 exampleCoincident =
     [(- (1 / 8388608), - (1 / 8388608)), (- (1 / 8388608), - (1 / 8388608)), (- (1 / 8388608), - (1 / 8388608))]"
  "centered round32 exampleCoincidentTarget = [(0, 0), (0, 0), (0, 0)]"
  by (simp_all add: centered_def coincident_mean) (simp_all add: shape_defs round32_defs)

lemma coincident_covariance:
  "covariance round32 exampleCoincident exampleCoincidentTarget = (0, 0, 0, 0)"
  by (simp add: covariance_def coincident_centered) (simp add: shape_defs round32_defs)

lemma coincident_variance:
  "sourceVariance round32 exampleCoincident = 1 / 2 ^ 45"
  by (simp add: sourceVariance_def coincident_centered) (simp add: shape_defs round32_defs)

lemma zero_matrix_singular_values:
  assumes "validSvd (0, 0, 0, 0) (u, sv, v)"
  shows "sv = (0, 0)"
proof -
  obtain a b c d where u: "u = (a, b, c, d)" by (cases u) auto
  obtain p q r s where v: "v = (p, q, r, s)" by (cases v) auto
  obtain s0 s1 where sv: "sv = (s0, s1)" by (cases sv) auto
  from assms have ou: "a * a + c * c = 1" "a * b + c * d = 0"
    and ov: "p * p + r * r = 1"
    and nn: "0 \<le> s1" "s1 \<le> s0"
    and m: "a * s0 * p + b * s1 * q = 0" "a * s0 * r + b * s1 * s = 0"
      "c * s0 * p + d * s1 * q = 0" "c * s0 * r + d * s1 * s = 0"
    by (simp_all add: validSvd_def orthogonal_def mat2Identity_def u v sv)
  have "s0 * p = (a * a + c * c) * (s0 * p) + (a * b + c * d) * (s1 * q)" using ou by simp
  also have "\<dots> = a * (a * s0 * p + b * s1 * q) + c * (c * s0 * p + d * s1 * q)"
    by (simp add: algebra_simps)
  finally have e1: "s0 * p = 0" using m by simp
  have "s0 * r = (a * a + c * c) * (s0 * r) + (a * b + c * d) * (s1 * s)" using ou by simp
  also have "\<dots> = a * (a * s0 * r + b * s1 * s) + c * (c * s0 * r + d * s1 * s)"
    by (simp add: algebra_simps)
  finally have e2: "s0 * r = 0" using m by simp
  have "s0 = 0"
  proof (rule ccontr)
    assume "s0 \<noteq> 0"
    then have "p = 0" "r = 0" using e1 e2 by simp_all
    then show False using ov by simp
  qed
  then show ?thesis using nn sv by simp
qed



text \<open>
  Claim C5, at the shape of the two landmarks \<^verbatim>\<open>(0, 0)\<close> and \<^verbatim>\<open>(0.3f, 0.9f)\<close>. The
  covariance of the shape with itself, as single precision computes it, has a negative
  determinant (the determinant of line 45, its two products and their difference
  rounded, is \<open>-2\<^sup>-\<^sup>3\<^sup>1\<close>), so the reflection branch of line 48 is taken although the
  shape is aligned with itself; the variance is positive. Whatever decomposition keeping
  its contract the library returns, the linear part returned is not the identity matrix.
\<close>

theorem estimateSimilarityTransform_self_reflected:
  "covariance round32 exampleCollinear exampleCollinear =
     (3019899 / 134217728, 9059697 / 134217728, 9059697 / 134217728, 1698693 / 8388608) \<and>
   mdet (covariance round32 exampleCollinear exampleCollinear) < 0 \<and>
   round32 (round32 (3019899 / 134217728 * (1698693 / 8388608)) -
            round32 (9059697 / 134217728 * (9059697 / 134217728))) = - (1 / 2 ^ 31) \<and>
   0 < sourceVariance round32 exampleCollinear \<and>
   \<not> (\<exists>jacobiSvd t.
         validSvd (covariance round32 exampleCollinear exampleCollinear)
           (jacobiSvd (covariance round32 exampleCollinear exampleCollinear)) \<and>
         estimateSimilarityTransform round32 jacobiSvd exampleCollinear exampleCollinear = Inr t \<and>
         linear t = mat2Identity)"
proof -
  let ?m = "(3019899 / 134217728, 9059697 / 134217728, 9059697 / 134217728, 1698693 / 8388608) :: mat2"
  note cv = collinear_covariance
  have neg: "mdet ?m < 0" by simp
  have var: "0 < sourceVariance round32 exampleCollinear" by (simp add: collinear_variance)
  have no: "\<not> (\<exists>jacobiSvd t.
         validSvd ?m (jacobiSvd ?m) \<and>
         estimateSimilarityTransform round32 jacobiSvd exampleCollinear exampleCollinear = Inr t \<and>
         linear t = mat2Identity)"
  proof
    assume "\<exists>jacobiSvd t.
         validSvd ?m (jacobiSvd ?m) \<and>
         estimateSimilarityTransform round32 jacobiSvd exampleCollinear exampleCollinear = Inr t \<and>
         linear t = mat2Identity"
    then obtain jacobiSvd t where svd: "validSvd ?m (jacobiSvd ?m)"
      and est: "estimateSimilarityTransform round32 jacobiSvd exampleCollinear exampleCollinear = Inr t"
      and lin: "linear t = mat2Identity" by blast
    obtain u sv v where r: "jacobiSvd ?m = (u, sv, v)" by (cases "jacobiSvd ?m") auto
    obtain r00 r01 r10 r11 where rot: "rotationPart ?m (u, sv, v) = (r00, r01, r10, r11)"
      by (cases "rotationPart ?m (u, sv, v)") auto
    have ne: "exampleCollinear \<noteq> []" by (simp add: exampleCollinear_def)
    have "linear t = mscalar (scaleFactor (sourceVariance round32 exampleCollinear) ?m (u, sv, v))
                       (r00, r01, r10, r11)"
      using est by (auto simp: estimateSimilarityTransform_def Let_def cv r rot ne)
    then obtain k where "mscalar k (r00, r01, r10, r11) = mat2Identity" using lin by metis
    then have "k * r00 = 1" "k * r01 = 0" "k * r10 = 0" by (simp_all add: mat2Identity_def)
    then have z: "r01 = 0" "r10 = 0" by auto
    have "r01 \<noteq> 0 \<or> r10 \<noteq> 0"
      by (rule reflection_not_diagonal [OF svd [unfolded r] _ _ neg rot]) simp_all
    then show False using z by simp
  qed
  show ?thesis using cv neg collinear_determinant var no by (simp only: cv) simp
qed

text \<open>
  Claim C7, at three landmarks \<^verbatim>\<open>(1.7f, 1.7f)\<close> aligned with three landmarks
  \<^verbatim>\<open>(1, 1)\<close>. The single-precision mean of the three equal landmarks is not the
  landmark, so the variance \<^verbatim>\<open>sFrom\<close> is \<open>2\<^sup>-\<^sup>4\<^sup>5\<close>, not zero: the guard
  \<^verbatim>\<open>sFrom > 0\<close> holds and the division is executed. The covariance is the zero
  matrix, so both singular values are zero and the scale is zero: the linear part
  returned is the zero matrix, with the decomposition the library gives for the zero
  matrix and with every other decomposition keeping the contract.
\<close>

theorem estimateSimilarityTransform_coincident_scale_zero:
  "rowwiseMean round32 exampleCoincident = (14260635 / 8388608, 14260635 / 8388608) \<and>
   sourceVariance round32 exampleCoincident = 1 / 2 ^ 45 \<and>
   covariance round32 exampleCoincident exampleCoincidentTarget = (0, 0, 0, 0) \<and>
   validSvd (0, 0, 0, 0) (exampleZeroSvd (0, 0, 0, 0)) \<and>
   estimateSimilarityTransform round32 exampleZeroSvd exampleCoincident exampleCoincidentTarget =
     Inr \<lparr>linear = (0, 0, 0, 0), translation = (1, 1)\<rparr> \<and>
   \<not> (\<exists>jacobiSvd t.
         validSvd (covariance round32 exampleCoincident exampleCoincidentTarget)
           (jacobiSvd (covariance round32 exampleCoincident exampleCoincidentTarget)) \<and>
         estimateSimilarityTransform round32 jacobiSvd exampleCoincident exampleCoincidentTarget = Inr t \<and>
         linear t \<noteq> (0, 0, 0, 0))"
proof -
  note cv = coincident_covariance
  have v: "validSvd (0, 0, 0, 0) (exampleZeroSvd (0, 0, 0, 0))"
    by (simp add: validSvd_def orthogonal_def exampleZeroSvd_def mat2Identity_def)
  have e: "estimateSimilarityTransform round32 exampleZeroSvd exampleCoincident exampleCoincidentTarget =
     Inr \<lparr>linear = (0, 0, 0, 0), translation = (1, 1)\<rparr>"
  proof -
    have ne: "exampleCoincident \<noteq> []" "exampleCoincidentTarget \<noteq> []"
      "length exampleCoincident = length exampleCoincidentTarget"
      by (simp_all add: exampleCoincident_def exampleCoincidentTarget_def)
    show ?thesis
      by (simp add: estimateSimilarityTransform_def Let_def cv coincident_mean coincident_variance ne
          exampleZeroSvd_def scaleFactor_def rotationPart_def correction_def mat2Identity_def vsub_def)
  qed
  have no: "\<not> (\<exists>jacobiSvd t.
         validSvd (0, 0, 0, 0) (jacobiSvd (0, 0, 0, 0)) \<and>
         estimateSimilarityTransform round32 jacobiSvd exampleCoincident exampleCoincidentTarget = Inr t \<and>
         linear t \<noteq> (0, 0, 0, 0))"
  proof
    assume "\<exists>jacobiSvd t.
         validSvd (0, 0, 0, 0) (jacobiSvd (0, 0, 0, 0)) \<and>
         estimateSimilarityTransform round32 jacobiSvd exampleCoincident exampleCoincidentTarget = Inr t \<and>
         linear t \<noteq> (0, 0, 0, 0)"
    then obtain jacobiSvd t where svd: "validSvd (0, 0, 0, 0) (jacobiSvd (0, 0, 0, 0))"
      and est: "estimateSimilarityTransform round32 jacobiSvd exampleCoincident exampleCoincidentTarget = Inr t"
      and lin: "linear t \<noteq> (0, 0, 0, 0)" by blast
    obtain u sv v where r: "jacobiSvd (0, 0, 0, 0) = (u, sv, v)" by (cases "jacobiSvd (0, 0, 0, 0)") auto
    have sv: "sv = (0, 0)" using svd unfolding r by (rule zero_matrix_singular_values)
    have c: "scaleFactor (sourceVariance round32 exampleCoincident) (0, 0, 0, 0) (u, sv, v) = 0"
      by (simp add: scaleFactor_def Let_def sv correction_def mat2Identity_def coincident_variance)
    obtain r00 r01 r10 r11 where rot: "rotationPart (0, 0, 0, 0) (u, sv, v) = (r00, r01, r10, r11)"
      by (cases "rotationPart (0, 0, 0, 0) (u, sv, v)") auto
    have ne: "exampleCoincident \<noteq> []" "exampleCoincidentTarget \<noteq> []"
      "length exampleCoincident = length exampleCoincidentTarget"
      by (simp_all add: exampleCoincident_def exampleCoincidentTarget_def)
    have "linear t = mscalar (scaleFactor (sourceVariance round32 exampleCoincident) (0, 0, 0, 0) (u, sv, v))
                       (r00, r01, r10, r11)"
      using est by (auto simp: estimateSimilarityTransform_def Let_def cv r rot ne)
    then show False using lin by (simp add: c)
  qed
  show ?thesis using coincident_mean(1) coincident_variance cv v e no by (simp only: cv) simp
qed

end
